theory Spec2Isabelle
  imports Main
begin

section \<open>Webhook forwarding (pkg/whatsapp/webhook.go)\<close>

text \<open>
  The file forwards a protocol event to the configured webhook URLs: a type switch picks
  a payload builder, the payload is serialised, signed and posted to every URL, each
  post being retried with a doubling sleep. The embedding follows the Go text function
  by function. What the Go code does to the outside (the media download, the HTTP
  round trip, the sleep, the clock) is threaded through an explicit state: an opaque
  world that the outside operations transform, and the list of the effects performed so
  far. Functions of other packages and of the standard library that the file calls
  are fields of the record \<open>deps\<close>; every theorem holds for all of them. The
  \<open>logrus\<close> calls write log lines only and are left out.
\<close>

subsection \<open>Errors and formatting verbs\<close>

text \<open>
  A Go \<open>error\<close> is either the repository's \<open>pkgError.WebhookError\<close> (a string
  type) or any other error value; both are rendered by their \<open>Error()\<close> text.
\<close>

datatype error = WebhookError string | OtherError string

fun error_text :: "error \<Rightarrow> string" where
  "error_text (WebhookError m) = m"
| "error_text (OtherError m) = m"

text \<open>The verb \<open>%v\<close> on an error interface value (\<open>nil\<close> prints as \<open><nil>\<close>).\<close>

definition Sprintf_v :: "error option \<Rightarrow> string" where
  "Sprintf_v err = (case err of None \<Rightarrow> ''<nil>'' | Some e \<Rightarrow> error_text e)"

text \<open>The verb \<open>%d\<close> on an \<open>int\<close>: decimal digits, with a minus sign below zero.\<close>

fun digits :: "nat \<Rightarrow> string" where
  "digits n = (if n < 10 then [''0123456789'' ! n]
               else digits (n div 10) @ [''0123456789'' ! (n mod 10)])"

declare digits.simps [simp del]

definition Sprintf_d :: "int \<Rightarrow> string" where
  "Sprintf_d i = (if i < 0 then CHR ''-'' # digits (nat (- i)) else digits (nat i))"

subsection \<open>Events\<close>

text \<open>
  A \<open>time.Time\<close> is read in two ways only, \<open>Format(time.RFC3339)\<close> and
  \<open>IsZero()\<close>; it is modelled by these two observations. Likewise a message source is
  modelled by its \<open>SourceString()\<close> and a JID by its \<open>String()\<close>.
\<close>

record gotime =
  RFC3339 :: string
  IsZero :: bool

record MessageInfo =
  SourceString :: string
  PushName :: string
  Timestamp :: gotime

text \<open>
  The protobuf message: the ten optional sub-messages the file asks for, each kept as
  its opaque content.
\<close>

record waMessage =
  AudioMessage :: "string option"
  ContactMessage :: "string option"
  DocumentMessage :: "string option"
  ImageMessage :: "string option"
  ListMessage :: "string option"
  LiveLocationMessage :: "string option"
  LocationMessage :: "string option"
  OrderMessage :: "string option"
  StickerMessage :: "string option"
  VideoMessage :: "string option"

text \<open>
  \<open>Message\<close> is a pointer and may be \<open>nil\<close>; \<open>Unread\<close> stands for every field
  of the event that this file does not read itself (the helpers may).
\<close>

record events_Message =
  Info :: MessageInfo
  Message :: "waMessage option"
  IsViewOnce :: bool
  Unread :: string

record events_Receipt =
  Receipt_SourceString :: string
  Receipt_Timestamp :: gotime
  MessageIDs :: "string list"
  Receipt_Type :: string

record events_Presence =
  From :: string
  Unavailable :: bool
  LastSeen :: gotime

text \<open>
  The argument of \<open>forwardToWebhook\<close> has type \<open>any\<close>. The three pointer types of
  the switch are constructors of their own (the pointers are taken to be non-nil, as
  the protocol client hands them over); every other dynamic type is \<open>Other_type\<close>
  with the name that \<open>%T\<close> prints for it.
\<close>

datatype event =
    Message_ptr events_Message
  | Receipt_ptr events_Receipt
  | Presence_ptr events_Presence
  | Other_type string

text \<open>The generated getters are nil-safe: on a \<open>nil\<close> message they return \<open>nil\<close>.\<close>

definition GetAudioMessage :: "waMessage option \<Rightarrow> string option" where
  "GetAudioMessage m = Option.bind m AudioMessage"

definition GetContactMessage :: "waMessage option \<Rightarrow> string option" where
  "GetContactMessage m = Option.bind m ContactMessage"

definition GetDocumentMessage :: "waMessage option \<Rightarrow> string option" where
  "GetDocumentMessage m = Option.bind m DocumentMessage"

definition GetImageMessage :: "waMessage option \<Rightarrow> string option" where
  "GetImageMessage m = Option.bind m ImageMessage"

definition GetListMessage :: "waMessage option \<Rightarrow> string option" where
  "GetListMessage m = Option.bind m ListMessage"

definition GetLiveLocationMessage :: "waMessage option \<Rightarrow> string option" where
  "GetLiveLocationMessage m = Option.bind m LiveLocationMessage"

definition GetLocationMessage :: "waMessage option \<Rightarrow> string option" where
  "GetLocationMessage m = Option.bind m LocationMessage"

definition GetOrderMessage :: "waMessage option \<Rightarrow> string option" where
  "GetOrderMessage m = Option.bind m OrderMessage"

definition GetStickerMessage :: "waMessage option \<Rightarrow> string option" where
  "GetStickerMessage m = Option.bind m StickerMessage"

definition GetVideoMessage :: "waMessage option \<Rightarrow> string option" where
  "GetVideoMessage m = Option.bind m VideoMessage"

subsection \<open>Payloads, requests, effects\<close>

text \<open>
  Modelled from the spec: the struct types \<open>evtMessage\<close> and \<open>evtReaction\<close> are
  declared outside this file. The spec calls them the structured text of the event and
  the structured reaction (target message and emoji); the file reads \<open>Text\<close> of the
  first and \<open>Message\<close> (the emoji) of the second.
\<close>

record evtMessage =
  msg_ID :: string
  Text :: string

record evtReaction =
  reaction_ID :: string
  reaction_Message :: string

text \<open>
  The values stored in \<open>map[string]interface{}\<close>, one constructor per dynamic type
  that the builders store.
\<close>

datatype jvalue =
    VString string
  | VBool bool
  | VMessage evtMessage
  | VReaction evtReaction
  | VProto string
  | VMessageIDs "string list"
  | VReceiptType string

type_synonym payload = "string \<rightharpoonup> jvalue"

record request =
  Method :: string
  URL :: string
  Body :: string
  Header :: "string \<rightharpoonup> string"

record response =
  StatusCode :: int

text \<open>
  The body of the request is a \<open>bytes.Buffer\<close>, and a \<open>*http.Request\<close> is one
  object for as long as it lives: what a reader has taken from the buffer is gone from
  it. \<open>Body\<close> holds the bytes still unread; \<open>body_read n\<close> is the request after
  \<open>n\<close> bytes of its body have been read.
\<close>

definition body_read :: "nat \<Rightarrow> request \<Rightarrow> request" where
  "body_read n req = req\<lparr>Body := drop n (Body req)\<rparr>"

datatype media_kind = KAudio | KDocument | KImage | KSticker | KVideo

text \<open>
  The word that names a media kind, in the error text and as the payload key alike.
\<close>

fun media_name :: "media_kind \<Rightarrow> string" where
  "media_name KAudio = ''audio''"
| "media_name KDocument = ''document''"
| "media_name KImage = ''image''"
| "media_name KSticker = ''sticker''"
| "media_name KVideo = ''video''"

text \<open>
  What the code does to the outside, each with its result. \<open>Submitted\<close> is the return
  of one \<open>submitWebhook(payload, url)\<close> call inside the loop of
  \<open>forwardToWebhook\<close>; it is recorded there so that the calls themselves can be
  counted.
\<close>

datatype effect =
    Extract media_kind string "error + string"
  | Attempt request "error + response"
  | Sleep int
  | Submitted string payload "error option"

record 'w state =
  world :: 'w
  trace :: "effect list"

text \<open>
  The process configuration (package \<open>config\<close>) and the functions called from other
  packages. The first three are pure helpers of the repository; \<open>ExtractMedia\<close>,
  \<open>client_Do\<close> and \<open>time_Sleep\<close> act on the world; \<open>url_Parse\<close> is the only way
  in which \<open>http.NewRequest\<close> can fail here. \<open>client_Do\<close> gives, with the
  response or the error, the number of bytes that the call has read from the body of
  the request.
\<close>

record config =
  WhatsappWebhook :: "string list"
  WhatsappWebhookSecret :: string
  PathMedia :: string

record 'w deps =
  buildEventMessage :: "events_Message \<Rightarrow> evtMessage"
  buildEventReaction :: "events_Message \<Rightarrow> evtReaction"
  buildForwarded :: "events_Message \<Rightarrow> bool"
  ExtractMedia :: "string \<Rightarrow> media_kind \<Rightarrow> string \<Rightarrow> 'w \<Rightarrow> (error + string) \<times> 'w"
  getMessageDigestOrSignature :: "string \<Rightarrow> string \<Rightarrow> error + string"
  json_Marshal :: "payload \<Rightarrow> error + string"
  url_Parse :: "string \<Rightarrow> error option"
  client_Do :: "request \<Rightarrow> 'w \<Rightarrow> (error + response) \<times> nat \<times> 'w"
  time_Sleep :: "int \<Rightarrow> 'w \<Rightarrow> 'w"
  time_Now :: "'w \<Rightarrow> gotime"

definition extract_media :: "'w deps \<Rightarrow> string \<Rightarrow> media_kind \<Rightarrow> string \<Rightarrow> 'w state
    \<Rightarrow> (error + string) \<times> 'w state" where
  "extract_media d root k m s =
     (case ExtractMedia d root k m (world s) of
        (r, w) \<Rightarrow> (r, \<lparr>world = w, trace = trace s @ [Extract k m r]\<rparr>))"

text \<open>
  \<open>client.Do(req)\<close>: the outcome, the request object as the call leaves it, and the
  new state. The effect records the request as it is handed over.
\<close>

definition do_request :: "'w deps \<Rightarrow> request \<Rightarrow> 'w state
    \<Rightarrow> (error + response) \<times> request \<times> 'w state" where
  "do_request d req s =
     (case client_Do d req (world s) of
        (r, n, w) \<Rightarrow> (r, body_read n req, \<lparr>world = w, trace = trace s @ [Attempt req r]\<rparr>))"

definition sleep :: "'w deps \<Rightarrow> int \<Rightarrow> 'w state \<Rightarrow> 'w state" where
  "sleep d dur s = \<lparr>world = time_Sleep d dur (world s), trace = trace s @ [Sleep dur]\<rparr>"

subsection \<open>createPayload\<close>

text \<open>
  \<open>and_then\<close> is the Go idiom \<open>if err != nil { return nil, err }\<close>: stop at an
  error, go on with the value otherwise.
\<close>

definition and_then :: "(error + 'a) \<times> 's \<Rightarrow> ('a \<Rightarrow> 's \<Rightarrow> (error + 'b) \<times> 's)
    \<Rightarrow> (error + 'b) \<times> 's" where
  "and_then x f = (case x of (Inl e, s) \<Rightarrow> (Inl e, s) | (Inr a, s) \<Rightarrow> f a s)"

text \<open>
  The block written five times in \<open>createPayload\<close>, once per media kind:
  \<^verbatim>\<open>
  if media := evt.Message.GetXMessage(); media != nil {
      path, err := ExtractMedia(config.PathMedia, media)
      if err != nil {
          return nil, pkgError.WebhookError(fmt.Sprintf("Failed to download x: %v", err))
      }
      body["x"] = path
  }\<close>
\<close>

definition media_field :: "'w deps \<Rightarrow> config \<Rightarrow> media_kind \<Rightarrow> string option \<Rightarrow> payload
    \<Rightarrow> 'w state \<Rightarrow> (error + payload) \<times> 'w state" where
  "media_field d c k media body s =
     (case media of
        None \<Rightarrow> (Inr body, s)
      | Some m \<Rightarrow>
          (case extract_media d (PathMedia c) k m s of
             (Inl err, s1) \<Rightarrow>
               (Inl (WebhookError (''Failed to download '' @ media_name k @ '': '' @ error_text err)), s1)
           | (Inr path, s1) \<Rightarrow> (Inr (body(media_name k \<mapsto> VString path)), s1)))"

text \<open>
  The block written for the five sub-messages that are passed through:
  \<^verbatim>\<open>if m := evt.Message.GetXMessage(); m != nil { body["x"] = m }\<close>
\<close>

definition proto_field :: "string \<Rightarrow> string option \<Rightarrow> payload \<Rightarrow> payload" where
  "proto_field key sub body = (case sub of None \<Rightarrow> body | Some m \<Rightarrow> body(key \<mapsto> VProto m))"

definition createPayload :: "'w deps \<Rightarrow> config \<Rightarrow> events_Message \<Rightarrow> 'w state
    \<Rightarrow> (error + payload) \<times> 'w state" where
  "createPayload d c evt s =
     (let message = buildEventMessage d evt;
          waReaction = buildEventReaction d evt;
          forwarded = buildForwarded d evt;
          body = [''event_type'' \<mapsto> VString ''message''];
          body = (if SourceString (Info evt) \<noteq> ''''
                  then body(''from'' \<mapsto> VString (SourceString (Info evt))) else body);
          body = (if Text message \<noteq> '''' then body(''message'' \<mapsto> VMessage message) else body);
          body = (if PushName (Info evt) \<noteq> ''''
                  then body(''pushname'' \<mapsto> VString (PushName (Info evt))) else body);
          body = (if reaction_Message waReaction \<noteq> ''''
                  then body(''reaction'' \<mapsto> VReaction waReaction) else body);
          body = (if IsViewOnce evt then body(''view_once'' \<mapsto> VBool (IsViewOnce evt)) else body);
          body = (if forwarded then body(''forwarded'' \<mapsto> VBool forwarded) else body);
          body = (if RFC3339 (Timestamp (Info evt)) \<noteq> ''''
                  then body(''timestamp'' \<mapsto> VString (RFC3339 (Timestamp (Info evt)))) else body)
      in
      and_then (media_field d c KAudio (GetAudioMessage (Message evt)) body s) (\<lambda>body s.
      let body = proto_field ''contact'' (GetContactMessage (Message evt)) body in
      and_then (media_field d c KDocument (GetDocumentMessage (Message evt)) body s) (\<lambda>body s.
      and_then (media_field d c KImage (GetImageMessage (Message evt)) body s) (\<lambda>body s.
      let body = proto_field ''list'' (GetListMessage (Message evt)) body;
          body = proto_field ''live_location'' (GetLiveLocationMessage (Message evt)) body;
          body = proto_field ''location'' (GetLocationMessage (Message evt)) body;
          body = proto_field ''order'' (GetOrderMessage (Message evt)) body in
      and_then (media_field d c KSticker (GetStickerMessage (Message evt)) body s) (\<lambda>body s.
      media_field d c KVideo (GetVideoMessage (Message evt)) body s)))))"

subsection \<open>createReceiptPayload and createPresencePayload\<close>

text \<open>\<open>types.ReceiptTypeDelivered\<close> is the empty string in the protocol library.\<close>

definition ReceiptTypeDelivered :: string where
  "ReceiptTypeDelivered = ''''"

definition createReceiptPayload :: "events_Receipt \<Rightarrow> error + payload" where
  "createReceiptPayload evt =
     (let body = Map.empty;
          body = body(''event_type'' \<mapsto> VString ''receipt'');
          body = body(''from'' \<mapsto> VString (Receipt_SourceString evt));
          body = body(''timestamp'' \<mapsto> VString (RFC3339 (Receipt_Timestamp evt)));
          body = body(''message_ids'' \<mapsto> VMessageIDs (MessageIDs evt));
          body = (if Receipt_Type evt = ReceiptTypeDelivered
                  then body(''receipt_type'' \<mapsto> VString ''delivered'')
                  else body(''receipt_type'' \<mapsto> VReceiptType (Receipt_Type evt)))
      in Inr body)"

text \<open>The presence payload reads the clock: \<open>time.Now()\<close> is the time of the world.\<close>

definition createPresencePayload :: "'w deps \<Rightarrow> events_Presence \<Rightarrow> 'w state
    \<Rightarrow> (error + payload) \<times> 'w state" where
  "createPresencePayload d evt s =
     (let body = Map.empty;
          body = body(''event_type'' \<mapsto> VString ''presence'');
          body = body(''from'' \<mapsto> VString (From evt));
          body = body(''timestamp'' \<mapsto> VString (RFC3339 (time_Now d (world s))));
          body = body(''status'' \<mapsto> VString ''online'');
          body = (if Unavailable evt
                  then (let body = body(''status'' \<mapsto> VString ''offline'')
                        in if \<not> IsZero (LastSeen evt)
                           then body(''last_seen'' \<mapsto> VString (RFC3339 (LastSeen evt)))
                           else body)
                  else body)
      in (Inr body, s))"

subsection \<open>submitWebhook\<close>

text \<open>
  \<open>http.NewRequest\<close> with a valid method and a background context fails exactly when
  the URL does not parse; the request it returns has no header yet.
\<close>

definition http_NewRequest :: "'w deps \<Rightarrow> string \<Rightarrow> string \<Rightarrow> string \<Rightarrow> error + request" where
  "http_NewRequest d method url body =
     (case url_Parse d url of
        Some err \<Rightarrow> Inl err
      | None \<Rightarrow> Inr \<lparr>Method = method, URL = url, Body = body, Header = Map.empty\<rparr>)"

definition Header_Set :: "request \<Rightarrow> string \<Rightarrow> string \<Rightarrow> request" where
  "Header_Set req key v = req\<lparr>Header := (Header req)(key \<mapsto> v)\<rparr>"

text \<open>
  A \<open>time.Duration\<close> is an \<open>int64\<close> count of nanoseconds; \<open>int64\<close> is the
  wrap-around of its arithmetic.
\<close>

definition Second :: int where
  "Second = 1000000000"

definition int64 :: "int \<Rightarrow> int" where
  "int64 x = (x + 2 ^ 63) mod 2 ^ 64 - 2 ^ 63"

text \<open>
  The retry loop
  \<^verbatim>\<open>for attempt = 0; attempt < maxAttempts; attempt++ { ... }\<close>
  with its three variables, and the statement after it. Every round hands the same
  request object to \<open>client.Do\<close>, so a round finds the body as the rounds before
  have left it.
\<close>

function retry :: "'w deps \<Rightarrow> request \<Rightarrow> int \<Rightarrow> int \<Rightarrow> int \<Rightarrow> error option \<Rightarrow> 'w state
    \<Rightarrow> error option \<times> 'w state" where
  "retry d req maxAttempts attempt sleepDuration err s =
     (if attempt < maxAttempts then
        (case do_request d req s of
           (Inr resp, req1, s1) \<Rightarrow> (None, s1)
         | (Inl e, req1, s1) \<Rightarrow>
             retry d req1 maxAttempts (attempt + 1) (int64 (sleepDuration * 2)) (Some e)
               (sleep d sleepDuration s1))
      else
        (Some (WebhookError (''error when submit webhook after '' @ Sprintf_d attempt
                 @ '' attempts: '' @ Sprintf_v err)), s))"
  by pat_completeness auto
termination
  by (relation "measure (\<lambda>(d, req, maxAttempts, attempt, sleepDuration, err, s).
        nat (maxAttempts - attempt))") auto

declare retry.simps [simp del]

definition submitWebhook :: "'w deps \<Rightarrow> config \<Rightarrow> payload \<Rightarrow> string \<Rightarrow> 'w state
    \<Rightarrow> error option \<times> 'w state" where
  "submitWebhook d c payload url s =
     (case json_Marshal d payload of
        Inl err \<Rightarrow> (Some (WebhookError (''Failed to marshal body: '' @ error_text err)), s)
      | Inr postBody \<Rightarrow>
          (case http_NewRequest d ''POST'' url postBody of
             Inl err \<Rightarrow>
               (Some (WebhookError (''error when create http object '' @ error_text err)), s)
           | Inr req \<Rightarrow>
               (let secretKey = WhatsappWebhookSecret c in
                case getMessageDigestOrSignature d postBody secretKey of
                  Inl err \<Rightarrow>
                    (Some (WebhookError (''error when create signature '' @ error_text err)), s)
                | Inr signature \<Rightarrow>
                    (let req = Header_Set req ''Content-Type'' ''application/json'';
                         req = Header_Set req ''X-Hub-Signature-256'' (''sha256='' @ signature)
                     in retry d req 5 0 (1 * Second) None s))))"

subsection \<open>forwardToWebhook\<close>

text \<open>
  The type switch. Its default branch returns from \<open>forwardToWebhook\<close> with the
  error, which is what the test \<open>err != nil\<close> after the switch does with a builder's
  error, so both leave through the \<open>Inl\<close> result here.
\<close>

definition dispatch :: "'w deps \<Rightarrow> config \<Rightarrow> event \<Rightarrow> 'w state \<Rightarrow> (error + payload) \<times> 'w state" where
  "dispatch d c evt s =
     (case evt of
        Message_ptr e \<Rightarrow> createPayload d c e s
      | Receipt_ptr e \<Rightarrow> (createReceiptPayload e, s)
      | Presence_ptr e \<Rightarrow> createPresencePayload d e s
      | Other_type T \<Rightarrow> (Inl (OtherError (''unsupported event type: '' @ T)), s))"

text \<open>The loop \<^verbatim>\<open>for _, url := range config.WhatsappWebhook { ... }\<close>.\<close>

fun submit_each :: "'w deps \<Rightarrow> config \<Rightarrow> payload \<Rightarrow> string list \<Rightarrow> 'w state
    \<Rightarrow> error option \<times> 'w state" where
  "submit_each d c payload [] s = (None, s)"
| "submit_each d c payload (url # urls) s =
     (case submitWebhook d c payload url s of
        (r, s1) \<Rightarrow>
          (let s2 = s1\<lparr>trace := trace s1 @ [Submitted url payload r]\<rparr> in
           case r of
             Some err \<Rightarrow> (Some err, s2)
           | None \<Rightarrow> submit_each d c payload urls s2))"

definition forwardToWebhook :: "'w deps \<Rightarrow> config \<Rightarrow> event \<Rightarrow> 'w state
    \<Rightarrow> error option \<times> 'w state" where
  "forwardToWebhook d c evt s =
     (case dispatch d c evt s of
        (Inl err, s1) \<Rightarrow> (Some err, s1)
      | (Inr payload, s1) \<Rightarrow> submit_each d c payload (WhatsappWebhook c) s1)"

subsection \<open>Reading a trace\<close>

definition new_effects :: "'w state \<Rightarrow> 'w state \<Rightarrow> effect list" where
  "new_effects s s' = drop (length (trace s)) (trace s')"

fun attempts_of :: "effect list \<Rightarrow> (request \<times> (error + response)) list" where
  "attempts_of [] = []"
| "attempts_of (Attempt req r # xs) = (req, r) # attempts_of xs"
| "attempts_of (x # xs) = attempts_of xs"

fun submissions_of :: "effect list \<Rightarrow> (string \<times> payload \<times> error option) list" where
  "submissions_of [] = []"
| "submissions_of (Submitted url p r # xs) = (url, p, r) # submissions_of xs"
| "submissions_of (x # xs) = submissions_of xs"

fun is_Attempt :: "effect \<Rightarrow> bool" where
  "is_Attempt (Attempt req r) = True"
| "is_Attempt x = False"

fun sleeps_of :: "effect list \<Rightarrow> int list" where
  "sleeps_of [] = []"
| "sleeps_of (Sleep dur # xs) = dur # sleeps_of xs"
| "sleeps_of (x # xs) = sleeps_of xs"

text \<open>The waits between the first and the last attempt of a trace.\<close>

definition waits_between :: "effect list \<Rightarrow> int list" where
  "waits_between tr =
     sleeps_of (rev (dropWhile (\<lambda>x. \<not> is_Attempt x) (rev (dropWhile (\<lambda>x. \<not> is_Attempt x) tr))))"

subsection \<open>Descriptions of runs\<close>

text \<open>
  The effects of failed rounds of the retry loop on request \<open>req\<close>, the sleep
  starting at \<open>sd\<close>: an attempt that fails with the next error of the list after
  reading the number of bytes that goes with the error, a sleep, and the doubled sleep
  for the round after; \<open>after_rounds\<close> is the request as the rounds leave it.
\<close>

fun failed_rounds :: "request \<Rightarrow> int \<Rightarrow> (error \<times> nat) list \<Rightarrow> effect list" where
  "failed_rounds req sd [] = []"
| "failed_rounds req sd ((e, n) # es) =
     Attempt req (Inl e) # Sleep sd # failed_rounds (body_read n req) (int64 (sd * 2)) es"

fun after_rounds :: "request \<Rightarrow> (error \<times> nat) list \<Rightarrow> request" where
  "after_rounds req [] = req"
| "after_rounds req ((e, n) # es) = after_rounds (body_read n req) es"

text \<open>The attachment of a media kind on an event, as the getters return it.\<close>

fun attachment :: "media_kind \<Rightarrow> events_Message \<Rightarrow> string option" where
  "attachment KAudio evt = GetAudioMessage (Message evt)"
| "attachment KDocument evt = GetDocumentMessage (Message evt)"
| "attachment KImage evt = GetImageMessage (Message evt)"
| "attachment KSticker evt = GetStickerMessage (Message evt)"
| "attachment KVideo evt = GetVideoMessage (Message evt)"

text \<open>A successful extraction of an attachment of the event.\<close>

fun ok_extract_of :: "events_Message \<Rightarrow> effect \<Rightarrow> bool" where
  "ok_extract_of evt (Extract k m (Inr path)) = (attachment k evt = Some m)"
| "ok_extract_of evt x = False"

text \<open>\<open>s'\<close> comes from \<open>s\<close> by extractions of the event's media that all succeeded.\<close>

definition extends_ok_of :: "events_Message \<Rightarrow> 'w state \<Rightarrow> 'w state \<Rightarrow> bool" where
  "extends_ok_of evt s s' = (\<exists>oks. list_all (ok_extract_of evt) oks \<and> trace s' = trace s @ oks)"

text \<open>
  A run of the message payload builder from \<open>s\<close>: either a payload after successful
  extractions only, or the error of the one failed extraction, which is the last effect.
\<close>

definition build_run_of :: "events_Message \<Rightarrow> 'w state \<Rightarrow> (error + payload) \<times> 'w state \<Rightarrow> bool" where
  "build_run_of evt s x =
     (case x of
        (Inr p, s') \<Rightarrow> extends_ok_of evt s s'
      | (Inl err, s') \<Rightarrow>
          (\<exists>oks k m e. list_all (ok_extract_of evt) oks
             \<and> trace s' = trace s @ oks @ [Extract k m (Inl e)]
             \<and> attachment k evt = Some m
             \<and> err = WebhookError (''Failed to download '' @ media_name k @ '': '' @ error_text e)))"

text \<open>
  The effects of one delivery to \<open>url\<close>: attempts on that URL and sleeps. The
  effects of a payload build: extractions.
\<close>

fun delivery_effect :: "string \<Rightarrow> effect \<Rightarrow> bool" where
  "delivery_effect url (Attempt q out) = (URL q = url)"
| "delivery_effect url (Sleep dur) = True"
| "delivery_effect url x = False"

fun is_Extract :: "effect \<Rightarrow> bool" where
  "is_Extract (Extract k m out) = True"
| "is_Extract x = False"



text \<open>
  The request that section 4.6 of the specification describes: a POST to the endpoint
  with the serialised bytes as body, the JSON content type and the signature header.
\<close>

definition signed_request :: "string \<Rightarrow> string \<Rightarrow> string \<Rightarrow> request" where
  "signed_request url body sg =
     \<lparr>Method = ''POST'', URL = url, Body = body,
      Header = [''Content-Type'' \<mapsto> ''application/json'',
                ''X-Hub-Signature-256'' \<mapsto> ''sha256='' @ sg]\<rparr>"

subsection \<open>A simulated environment\<close>

text \<open>
  Concrete collaborators on which the theorems are exercised. The world holds the
  outcomes that the HTTP transport will give, in order (connection refused once they
  are used up), and the reading of the clock. An attempt that fails here fails before
  the connection stands, with no byte of the body read; an answered request has been
  read whole. Extraction fails for images and stores
  every other medium under the media root; the serialiser renders the event type and
  the timestamp only; the URL \<open>://example.com\<close> does not parse (it has no
  scheme); signing needs a non-empty key.
\<close>

record sim =
  responses :: "(error + response) list"
  clock :: gotime

definition sim_deps :: "sim deps" where
  "sim_deps = \<lparr>
     buildEventMessage = (\<lambda>evt. \<lparr>msg_ID = '''', Text = Unread evt\<rparr>),
     buildEventReaction = (\<lambda>evt. \<lparr>reaction_ID = '''', reaction_Message = ''''\<rparr>),
     buildForwarded = (\<lambda>evt. False),
     ExtractMedia = (\<lambda>root k m w.
        (if k = KImage then Inl (OtherError ''download failed'') else Inr (root @ ''/'' @ m), w)),
     getMessageDigestOrSignature = (\<lambda>body key.
        if key = '''' then Inl (OtherError ''empty key'') else Inr ''c0ffee''),
     json_Marshal = (\<lambda>p. case p ''event_type'' of
        Some (VString t) \<Rightarrow>
          (case p ''timestamp'' of
             Some (VString ts) \<Rightarrow> Inr (''event_type='' @ t @ '' timestamp='' @ ts)
           | _ \<Rightarrow> Inr (''event_type='' @ t))
      | _ \<Rightarrow> Inl (OtherError ''unsupported value'')),
     url_Parse = (\<lambda>u. if u = ''://example.com''
        then Some (OtherError ''missing protocol scheme'') else None),
     client_Do = (\<lambda>req w. case responses w of
        [] \<Rightarrow> (Inl (OtherError ''connection refused''), 0, w)
      | x # xs \<Rightarrow> (x, (if isl x then 0 else length (Body req)), w\<lparr>responses := xs\<rparr>)),
     time_Sleep = (\<lambda>dur w. w),
     time_Now = clock\<rparr>"

definition sim_config :: config where
  "sim_config = \<lparr>WhatsappWebhook = [''http://a.example/hook'', ''http://b.example/hook''],
     WhatsappWebhookSecret = ''secret'', PathMedia = ''statics/media''\<rparr>"

definition noon :: gotime where
  "noon = \<lparr>RFC3339 = ''2024-01-01T12:00:00Z'', IsZero = False\<rparr>"

definition sim_start :: "(error + response) list \<Rightarrow> sim state" where
  "sim_start rs = \<lparr>world = \<lparr>responses = rs, clock = noon\<rparr>, trace = []\<rparr>"

definition away :: events_Presence where
  "away = \<lparr>From = ''123@s.whatsapp.net'', Unavailable = True,
     LastSeen = \<lparr>RFC3339 = ''2024-01-01T11:59:00Z'', IsZero = False\<rparr>\<rparr>"

definition hello :: events_Message where
  "hello = \<lparr>Info = \<lparr>SourceString = ''123@s.whatsapp.net'', PushName = ''Ann'',
       Timestamp = noon\<rparr>,
     Message = None, IsViewOnce = False, Unread = ''hello''\<rparr>"

text \<open>
  A transport that refuses every connection, whatever the world; a payload as small as
  the serialiser of the simulation accepts; the request that \<open>submitWebhook\<close> builds
  for it and the first endpoint; and a transport script that fails twice with a
  timeout and then answers with status 500.
\<close>

definition refusing_deps :: "sim deps" where
  "refusing_deps = sim_deps\<lparr>client_Do := (\<lambda>req w. (Inl (OtherError ''connection refused''), 0, w))\<rparr>"

text \<open>
  An endpoint that takes the request and never answers: the transport sends the whole
  body, then gives up with an error.
\<close>

definition silent_deps :: "sim deps" where
  "silent_deps = sim_deps\<lparr>client_Do := (\<lambda>req w.
     (Inl (OtherError ''no response''), length (Body req), w))\<rparr>"

definition message_payload :: payload where
  "message_payload = [''event_type'' \<mapsto> VString ''message'']"

definition hook_request :: request where
  "hook_request = signed_request ''http://a.example/hook'' ''event_type=message'' ''c0ffee''"

text \<open>The same request once its body has been read to the end.\<close>

definition drained_request :: request where
  "drained_request = hook_request\<lparr>Body := ''''\<rparr>"

definition flaky :: "(error + response) list" where
  "flaky = [Inl (OtherError ''timeout''), Inl (OtherError ''timeout''), Inr \<lparr>StatusCode = 500\<rparr>]"

text \<open>
  A message with no sub-message at all; a photo (its extraction fails in the
  simulation); a contact card; a message with nothing but its source, push name and
  time; the start state one second later on the clock; a configuration without
  endpoints.
\<close>

definition no_attachments :: waMessage where
  "no_attachments = \<lparr>AudioMessage = None, ContactMessage = None, DocumentMessage = None,
     ImageMessage = None, ListMessage = None, LiveLocationMessage = None,
     LocationMessage = None, OrderMessage = None, StickerMessage = None,
     VideoMessage = None\<rparr>"

definition photo :: events_Message where
  "photo = hello\<lparr>Message := Some (no_attachments\<lparr>ImageMessage := Some ''jpeg''\<rparr>)\<rparr>"

definition contact_card :: events_Message where
  "contact_card = hello\<lparr>Message := Some (no_attachments\<lparr>ContactMessage := Some ''vcard''\<rparr>),
     Unread := ''''\<rparr>"

definition bare :: events_Message where
  "bare = hello\<lparr>Message := Some no_attachments, Unread := ''''\<rparr>"

definition a_second_later :: "sim state" where
  "a_second_later = \<lparr>world = \<lparr>responses = [],
     clock = \<lparr>RFC3339 = ''2024-01-01T12:00:01Z'', IsZero = False\<rparr>\<rparr>, trace = []\<rparr>"

definition no_hooks :: config where
  "no_hooks = sim_config\<lparr>WhatsappWebhook := []\<rparr>"

text \<open>
  The end-to-end scenario of the specification: the message \<open>hello\<close> goes to two
  endpoints, the first answers at once, the transport of the second refuses every
  attempt.
\<close>

definition hello_payload :: payload where
  "hello_payload = [''event_type'' \<mapsto> VString ''message'',
     ''from'' \<mapsto> VString ''123@s.whatsapp.net'',
     ''message'' \<mapsto> VMessage \<lparr>msg_ID = '''', Text = ''hello''\<rparr>,
     ''pushname'' \<mapsto> VString ''Ann'', ''timestamp'' \<mapsto> VString ''2024-01-01T12:00:00Z'']"

definition request_to :: "string \<Rightarrow> request" where
  "request_to url = signed_request url ''event_type=message timestamp=2024-01-01T12:00:00Z'' ''c0ffee''"

definition refused :: error where
  "refused = WebhookError ''error when submit webhook after 5 attempts: connection refused''"

definition end_to_end :: "effect list" where
  "end_to_end =
     [Attempt (request_to ''http://a.example/hook'') (Inr \<lparr>StatusCode = 200\<rparr>),
      Submitted ''http://a.example/hook'' hello_payload None,
      Attempt (request_to ''http://b.example/hook'') (Inl (OtherError ''connection refused'')),
      Sleep 1000000000,
      Attempt (request_to ''http://b.example/hook'') (Inl (OtherError ''connection refused'')),
      Sleep 2000000000,
      Attempt (request_to ''http://b.example/hook'') (Inl (OtherError ''connection refused'')),
      Sleep 4000000000,
      Attempt (request_to ''http://b.example/hook'') (Inl (OtherError ''connection refused'')),
      Sleep 8000000000,
      Attempt (request_to ''http://b.example/hook'') (Inl (OtherError ''connection refused'')),
      Sleep 16000000000,
      Submitted ''http://b.example/hook'' hello_payload (Some refused)]"

section \<open>Properties\<close>

subsection \<open>The payload builders\<close>

lemmas getters = GetAudioMessage_def GetContactMessage_def GetDocumentMessage_def
  GetImageMessage_def GetListMessage_def GetLiveLocationMessage_def GetLocationMessage_def
  GetOrderMessage_def GetStickerMessage_def GetVideoMessage_def

lemma and_then_Inl [simp]: "and_then (Inl e, s) f = (Inl e, s)"
  by (simp add: and_then_def)

lemma and_then_Inr [simp]: "and_then (Inr a, s) f = f a s"
  by (simp add: and_then_def)

lemma media_field_None [simp]: "media_field d c k None body s = (Inr body, s)"
  by (simp add: media_field_def)

lemma media_field_Some:
  "ExtractMedia d (PathMedia c) k m (world s) = (r, w) \<Longrightarrow>
   media_field d c k (Some m) body s =
     (case r of
        Inl err \<Rightarrow> Inl (WebhookError (''Failed to download '' @ media_name k @ '': '' @ error_text err))
      | Inr path \<Rightarrow> Inr (body(media_name k \<mapsto> VString path)),
      \<lparr>world = w, trace = trace s @ [Extract k m r]\<rparr>)"
  by (cases r) (simp_all add: media_field_def extract_media_def)




text \<open>
  C7. The presence payload has status \<open>offline\<close> exactly when the event marks the
  subject unavailable and \<open>online\<close> otherwise; the key \<open>last_seen\<close> is present
  exactly when the status is \<open>offline\<close> and the last-seen time is not the zero time
  (it then carries that time), so it is absent whenever the status is \<open>online\<close>.
\<close>

theorem presence_status_last_seen:
  "\<exists>body. createPresencePayload d evt s = (Inr body, s)
     \<and> body ''status'' = Some (VString (if Unavailable evt then ''offline'' else ''online''))
     \<and> (body ''status'' = Some (VString ''offline'')) = Unavailable evt
     \<and> (body ''last_seen'' \<noteq> None)
         = (body ''status'' = Some (VString ''offline'') \<and> \<not> IsZero (LastSeen evt))
     \<and> (if body ''status'' = Some (VString ''online'') then body ''last_seen'' = None
         else body ''last_seen''
           = (if IsZero (LastSeen evt) then None else Some (VString (RFC3339 (LastSeen evt)))))"
  by (simp add: createPresencePayload_def Let_def)

theorem presence_status_last_seen_witness:
  "\<exists>body. createPresencePayload sim_deps away (sim_start []) = (Inr body, sim_start [])
     \<and> body ''status'' = Some (VString ''offline'')
     \<and> body ''last_seen'' = Some (VString ''2024-01-01T11:59:00Z'')"
  using presence_status_last_seen [of sim_deps away "sim_start []"]
  by (auto simp add: away_def)



text \<open>
  Every run of \<open>createPayload\<close> extracts attachments of the event one after the
  other and stops at the first extraction that fails.
\<close>

lemma extends_ok_refl: "extends_ok_of evt s s"
  by (simp add: extends_ok_of_def)

lemma build_run_media:
  assumes "extends_ok_of evt s0 s" and "media = attachment k evt"
  shows "build_run_of evt s0 (media_field d c k media body s)"
proof (cases media)
  case None
  with assms show ?thesis by (simp add: build_run_of_def)
next
  case (Some m)
  obtain r w where ex: "ExtractMedia d (PathMedia c) k m (world s) = (r, w)"
    by (cases "ExtractMedia d (PathMedia c) k m (world s)")
  from assms obtain oks where oks: "list_all (ok_extract_of evt) oks" "trace s = trace s0 @ oks"
    by (auto simp: extends_ok_of_def)
  show ?thesis
  proof (cases r)
    case (Inl e)
    with Some ex oks assms(2) show ?thesis
      by (auto simp: media_field_Some build_run_of_def)
  next
    case (Inr path)
    with oks Some assms(2) have "list_all (ok_extract_of evt) (oks @ [Extract k m r])" by simp
    with Some ex oks Inr show ?thesis
      by (simp add: media_field_Some build_run_of_def extends_ok_of_def)
  qed
qed

lemma build_run_and_then:
  assumes "build_run_of evt s0 x" and "\<And>a s1. extends_ok_of evt s0 s1 \<Longrightarrow> build_run_of evt s0 (f a s1)"
  shows "build_run_of evt s0 (and_then x f)"
proof (cases x)
  case (Pair r s1)
  show ?thesis
  proof (cases r)
    case (Inl e)
    with Pair assms(1) show ?thesis by simp
  next
    case (Inr a)
    with Pair assms(1) have "extends_ok_of evt s0 s1" by (simp add: build_run_of_def)
    with assms(2) Pair Inr show ?thesis by simp
  qed
qed

lemma createPayload_run: "build_run_of evt s (createPayload d c evt s)"
  unfolding createPayload_def Let_def
  by (intro build_run_and_then build_run_media extends_ok_refl) simp_all





text \<open>
  C5, as amended. For a message event with no media attachment, no reaction, not
  forwarded and with empty text, that is moreover not view-once and carries none of the
  pass-through sub-messages (contact, list, live location, location, order),
  \<open>createPayload\<close> performs no effect and returns a payload with the key
  \<open>event_type\<close> and, each exactly when its source string is not empty, the keys
  \<open>from\<close>, \<open>pushname\<close> and \<open>timestamp\<close>; every other key is absent.
\<close>

theorem bare_message_payload:
  assumes "GetAudioMessage (Message evt) = None" and "GetDocumentMessage (Message evt) = None"
    and "GetImageMessage (Message evt) = None" and "GetStickerMessage (Message evt) = None"
    and "GetVideoMessage (Message evt) = None"
    and "reaction_Message (buildEventReaction d evt) = ''''"
    and "\<not> buildForwarded d evt"
    and "Text (buildEventMessage d evt) = ''''"
    and "\<not> IsViewOnce evt"
    and "GetContactMessage (Message evt) = None" and "GetListMessage (Message evt) = None"
    and "GetLiveLocationMessage (Message evt) = None"
    and "GetLocationMessage (Message evt) = None" and "GetOrderMessage (Message evt) = None"
  shows "\<exists>body. createPayload d c evt s = (Inr body, s)
     \<and> body ''event_type'' = Some (VString ''message'')
     \<and> body ''from'' = (if SourceString (Info evt) = '''' then None
                         else Some (VString (SourceString (Info evt))))
     \<and> body ''pushname'' = (if PushName (Info evt) = '''' then None
                             else Some (VString (PushName (Info evt))))
     \<and> body ''timestamp'' = (if RFC3339 (Timestamp (Info evt)) = '''' then None
                              else Some (VString (RFC3339 (Timestamp (Info evt)))))
     \<and> (\<forall>k. k \<notin> {''event_type'', ''from'', ''pushname'', ''timestamp''} \<longrightarrow> body k = None)"
proof -
  define b1 :: payload where "b1 = (if SourceString (Info evt) \<noteq> ''''
     then [''event_type'' \<mapsto> VString ''message'', ''from'' \<mapsto> VString (SourceString (Info evt))]
     else [''event_type'' \<mapsto> VString ''message''])"
  define b2 where "b2 = (if PushName (Info evt) \<noteq> ''''
     then b1(''pushname'' \<mapsto> VString (PushName (Info evt))) else b1)"
  define b3 where "b3 = (if RFC3339 (Timestamp (Info evt)) \<noteq> ''''
     then b2(''timestamp'' \<mapsto> VString (RFC3339 (Timestamp (Info evt)))) else b2)"
  have run: "createPayload d c evt s = (Inr b3, s)"
    using assms
    by (simp add: createPayload_def Let_def proto_field_def b1_def b2_def b3_def)
  have e: "b3 ''event_type'' = Some (VString ''message'')"
    by (simp add: b1_def b2_def b3_def)
  have f: "b3 ''from'' = (if SourceString (Info evt) = '''' then None
                         else Some (VString (SourceString (Info evt))))"
    by (simp add: b1_def b2_def b3_def)
  have p: "b3 ''pushname'' = (if PushName (Info evt) = '''' then None
                             else Some (VString (PushName (Info evt))))"
    by (simp add: b1_def b2_def b3_def)
  have t: "b3 ''timestamp'' = (if RFC3339 (Timestamp (Info evt)) = '''' then None
                              else Some (VString (RFC3339 (Timestamp (Info evt)))))"
    by (simp add: b1_def b2_def b3_def)
  have o: "\<forall>k. k \<notin> {''event_type'', ''from'', ''pushname'', ''timestamp''} \<longrightarrow> b3 k = None"
    by (simp add: b1_def b2_def b3_def)
  from run e f p t o show ?thesis by blast
qed

lemma bare_getters:
  "GetAudioMessage (Message bare) = None" "GetDocumentMessage (Message bare) = None"
  "GetImageMessage (Message bare) = None" "GetStickerMessage (Message bare) = None"
  "GetVideoMessage (Message bare) = None"
  "reaction_Message (buildEventReaction sim_deps bare) = ''''"
  "\<not> buildForwarded sim_deps bare"
  "Text (buildEventMessage sim_deps bare) = ''''"
  "\<not> IsViewOnce bare"
  "GetContactMessage (Message bare) = None" "GetListMessage (Message bare) = None"
  "GetLiveLocationMessage (Message bare) = None"
  "GetLocationMessage (Message bare) = None" "GetOrderMessage (Message bare) = None"
  by (simp_all add: bare_def hello_def no_attachments_def getters sim_deps_def)

lemma bare_info:
  "SourceString (Info bare) = ''123@s.whatsapp.net''" "PushName (Info bare) = ''Ann''"
  "RFC3339 (Timestamp (Info bare)) = ''2024-01-01T12:00:00Z''"
  by (simp_all add: bare_def hello_def noon_def)

theorem bare_message_payload_witness:
  "\<exists>body. createPayload sim_deps sim_config bare (sim_start []) = (Inr body, sim_start [])
     \<and> body ''event_type'' = Some (VString ''message'')
     \<and> body ''from'' = Some (VString ''123@s.whatsapp.net'')
     \<and> body ''pushname'' = Some (VString ''Ann'')
     \<and> body ''timestamp'' = Some (VString ''2024-01-01T12:00:00Z'')
     \<and> body ''message'' = None"
proof -
  from bare_message_payload [OF bare_getters, of sim_config "sim_start []"]
  obtain body where "createPayload sim_deps sim_config bare (sim_start []) = (Inr body, sim_start [])"
    and "body ''event_type'' = Some (VString ''message'')"
    and "body ''from'' = Some (VString ''123@s.whatsapp.net'')"
    and "body ''pushname'' = Some (VString ''Ann'')"
    and "body ''timestamp'' = Some (VString ''2024-01-01T12:00:00Z'')"
    and "\<forall>k. k \<notin> {''event_type'', ''from'', ''pushname'', ''timestamp''} \<longrightarrow> body k = None"
    unfolding bare_info by auto
  moreover from this have "body ''message'' = None" by simp
  ultimately show ?thesis by blast
qed

text \<open>
  C5 as stated fails on a contact card: the event has no media attachment, no reaction,
  is not forwarded and has no text, and its payload has the key \<open>contact\<close>.
\<close>

theorem bare_message_payload_counterexample:
  "GetAudioMessage (Message contact_card) = None
   \<and> GetDocumentMessage (Message contact_card) = None
   \<and> GetImageMessage (Message contact_card) = None
   \<and> GetStickerMessage (Message contact_card) = None
   \<and> GetVideoMessage (Message contact_card) = None
   \<and> reaction_Message (buildEventReaction sim_deps contact_card) = ''''
   \<and> \<not> buildForwarded sim_deps contact_card
   \<and> Text (buildEventMessage sim_deps contact_card) = ''''
   \<and> createPayload sim_deps sim_config contact_card (sim_start [])
       = (Inr [''event_type'' \<mapsto> VString ''message'',
               ''from'' \<mapsto> VString ''123@s.whatsapp.net'',
               ''pushname'' \<mapsto> VString ''Ann'',
               ''timestamp'' \<mapsto> VString ''2024-01-01T12:00:00Z'',
               ''contact'' \<mapsto> VProto ''vcard''],
          sim_start [])"
  by (simp add: createPayload_def Let_def contact_card_def hello_def no_attachments_def getters
      proto_field_def sim_deps_def noon_def)

text \<open>
  Two builds of a message payload return the same result when the extraction of a
  medium does not depend on the world.
\<close>

lemma same_and_then:
  assumes "fst x1 = fst x2" and "\<And>a t1 t2. fst (f a t1) = fst (f a t2)"
  shows "fst (and_then x1 f) = fst (and_then x2 f)"
proof (cases x1)
  case (Pair r1 u1)
  note x1 = this
  show ?thesis
  proof (cases x2)
    case (Pair r2 u2)
    with x1 assms(1) have "r2 = r1" by simp
    with x1 Pair assms(2) show ?thesis by (cases r1) simp_all
  qed
qed

lemma same_media:
  assumes "\<forall>k m w w'. fst (ExtractMedia d (PathMedia c) k m w) = fst (ExtractMedia d (PathMedia c) k m w')"
  shows "fst (media_field d c k media body s1) = fst (media_field d c k media body s2)"
proof (cases media)
  case None
  then show ?thesis by simp
next
  case (Some m)
  obtain r1 w1 where e1: "ExtractMedia d (PathMedia c) k m (world s1) = (r1, w1)"
    by (cases "ExtractMedia d (PathMedia c) k m (world s1)")
  obtain r2 w2 where e2: "ExtractMedia d (PathMedia c) k m (world s2) = (r2, w2)"
    by (cases "ExtractMedia d (PathMedia c) k m (world s2)")
  from assms have "fst (ExtractMedia d (PathMedia c) k m (world s1))
      = fst (ExtractMedia d (PathMedia c) k m (world s2))" by blast
  with e1 e2 have "r1 = r2" by simp
  with Some e1 e2 show ?thesis by (simp add: media_field_Some)
qed

lemma createPayload_same:
  assumes "\<forall>k m w w'. fst (ExtractMedia d (PathMedia c) k m w) = fst (ExtractMedia d (PathMedia c) k m w')"
  shows "fst (createPayload d c evt s1) = fst (createPayload d c evt s2)"
  unfolding createPayload_def Let_def
  by (intro same_and_then same_media assms)

text \<open>
  C6, as amended. Building the payload of the same event in two states gives the same
  result for a receipt event and for an event of an unsupported type, and for a message
  event provided the extraction collaborator returns the same result for the same medium
  in every world. For a presence event the two payloads have the same keys and the same
  value under every key but \<open>timestamp\<close>, which holds the reading of the clock at
  the build; they are equal exactly when the two readings format to the same string.
\<close>

theorem rebuild_same_payload:
  "(case evt of
      Message_ptr e \<Rightarrow>
        (\<forall>k m w w'. fst (ExtractMedia d (PathMedia c) k m w)
             = fst (ExtractMedia d (PathMedia c) k m w'))
        \<longrightarrow> fst (dispatch d c evt s1) = fst (dispatch d c evt s2)
    | Receipt_ptr e \<Rightarrow> fst (dispatch d c evt s1) = fst (dispatch d c evt s2)
    | Presence_ptr e \<Rightarrow>
        (\<exists>b1 b2. fst (dispatch d c evt s1) = Inr b1 \<and> fst (dispatch d c evt s2) = Inr b2
           \<and> dom b1 = dom b2
           \<and> (\<forall>k. k \<noteq> ''timestamp'' \<longrightarrow> b1 k = b2 k)
           \<and> b1 ''timestamp'' = Some (VString (RFC3339 (time_Now d (world s1))))
           \<and> b2 ''timestamp'' = Some (VString (RFC3339 (time_Now d (world s2))))
           \<and> (b1 = b2) = (RFC3339 (time_Now d (world s1)) = RFC3339 (time_Now d (world s2))))
    | Other_type T \<Rightarrow> fst (dispatch d c evt s1) = fst (dispatch d c evt s2))"
proof (cases evt)
  case (Message_ptr e)
  then show ?thesis by (simp add: dispatch_def createPayload_same)
next
  case (Receipt_ptr e)
  then show ?thesis by (simp add: dispatch_def)
next
  case (Presence_ptr e)
  define base :: payload where "base = [''event_type'' \<mapsto> VString ''presence'',
     ''from'' \<mapsto> VString (From e)]"
  define rest :: "payload \<Rightarrow> payload" where "rest = (\<lambda>b. if Unavailable e
     then (if \<not> IsZero (LastSeen e)
           then b(''status'' \<mapsto> VString ''offline'', ''last_seen'' \<mapsto> VString (RFC3339 (LastSeen e)))
           else b(''status'' \<mapsto> VString ''offline''))
     else b(''status'' \<mapsto> VString ''online''))"
  have run: "fst (createPresencePayload d e s)
      = Inr (rest (base(''timestamp'' \<mapsto> VString (RFC3339 (time_Now d (world s))))))" for s
    by (simp add: createPresencePayload_def Let_def base_def rest_def)
  let ?b = "\<lambda>s. rest (base(''timestamp'' \<mapsto> VString (RFC3339 (time_Now d (world s)))))"
  have d: "dom (?b s1) = dom (?b s2)" by (simp add: rest_def base_def)
  have o: "\<forall>k. k \<noteq> ''timestamp'' \<longrightarrow> ?b s1 k = ?b s2 k" by (simp add: rest_def base_def)
  have t: "?b s ''timestamp'' = Some (VString (RFC3339 (time_Now d (world s))))" for s
    by (simp add: rest_def base_def)
  have eq: "(?b s1 = ?b s2) = (RFC3339 (time_Now d (world s1)) = RFC3339 (time_Now d (world s2)))"
  proof
    assume "?b s1 = ?b s2"
    then have "?b s1 ''timestamp'' = ?b s2 ''timestamp''" by simp
    then show "RFC3339 (time_Now d (world s1)) = RFC3339 (time_Now d (world s2))"
      by (simp add: t)
  next
    assume "RFC3339 (time_Now d (world s1)) = RFC3339 (time_Now d (world s2))"
    then show "?b s1 = ?b s2" by simp
  qed
  from d o t [of s1] t [of s2] eq
  have "\<exists>b1 b2. fst (createPresencePayload d e s1) = Inr b1
           \<and> fst (createPresencePayload d e s2) = Inr b2
           \<and> dom b1 = dom b2
           \<and> (\<forall>k. k \<noteq> ''timestamp'' \<longrightarrow> b1 k = b2 k)
           \<and> b1 ''timestamp'' = Some (VString (RFC3339 (time_Now d (world s1))))
           \<and> b2 ''timestamp'' = Some (VString (RFC3339 (time_Now d (world s2))))
           \<and> (b1 = b2) = (RFC3339 (time_Now d (world s1)) = RFC3339 (time_Now d (world s2)))"
    unfolding run by blast
  with Presence_ptr show ?thesis by (simp add: dispatch_def)
next
  case (Other_type T)
  then show ?thesis by (simp add: dispatch_def)
qed

theorem rebuild_same_payload_witness:
  "fst (dispatch sim_deps sim_config (Message_ptr hello) (sim_start []))
     = fst (dispatch sim_deps sim_config (Message_ptr hello) a_second_later)
   \<and> fst (dispatch sim_deps sim_config (Presence_ptr away) (sim_start []))
     = fst (dispatch sim_deps sim_config (Presence_ptr away) (sim_start flaky))"
proof -
  have same: "\<forall>k m w w'. fst (ExtractMedia sim_deps (PathMedia sim_config) k m w)
      = fst (ExtractMedia sim_deps (PathMedia sim_config) k m w')"
    by (simp add: sim_deps_def)
  from rebuild_same_payload [where evt = "Message_ptr hello" and d = sim_deps and c = sim_config
      and ?s1.0 = "sim_start []" and ?s2.0 = a_second_later]
    same
  have m: "fst (dispatch sim_deps sim_config (Message_ptr hello) (sim_start []))
     = fst (dispatch sim_deps sim_config (Message_ptr hello) a_second_later)"
    by simp
  have "RFC3339 (time_Now sim_deps (world (sim_start [])))
      = RFC3339 (time_Now sim_deps (world (sim_start flaky)))"
    by (simp add: sim_deps_def sim_start_def)
  with rebuild_same_payload [where evt = "Presence_ptr away" and d = sim_deps and c = sim_config
      and ?s1.0 = "sim_start []" and ?s2.0 = "sim_start flaky"]
  have "fst (dispatch sim_deps sim_config (Presence_ptr away) (sim_start []))
     = fst (dispatch sim_deps sim_config (Presence_ptr away) (sim_start flaky))"
    by auto
  with m show ?thesis by simp
qed

text \<open>
  C6 as stated fails for a presence event built at two readings of the clock one
  second apart: the two payloads differ under \<open>timestamp\<close>.
\<close>

theorem rebuild_same_payload_counterexample:
  "fst (dispatch sim_deps sim_config (Presence_ptr away) (sim_start []))
     = Inr [''event_type'' \<mapsto> VString ''presence'', ''from'' \<mapsto> VString ''123@s.whatsapp.net'',
            ''timestamp'' \<mapsto> VString ''2024-01-01T12:00:00Z'',
            ''status'' \<mapsto> VString ''offline'',
            ''last_seen'' \<mapsto> VString ''2024-01-01T11:59:00Z'']
   \<and> fst (dispatch sim_deps sim_config (Presence_ptr away) a_second_later)
     = Inr [''event_type'' \<mapsto> VString ''presence'', ''from'' \<mapsto> VString ''123@s.whatsapp.net'',
            ''timestamp'' \<mapsto> VString ''2024-01-01T12:00:01Z'',
            ''status'' \<mapsto> VString ''offline'',
            ''last_seen'' \<mapsto> VString ''2024-01-01T11:59:00Z'']
   \<and> fst (dispatch sim_deps sim_config (Presence_ptr away) (sim_start []))
       \<noteq> fst (dispatch sim_deps sim_config (Presence_ptr away) a_second_later)"
proof -
  have a: "fst (dispatch sim_deps sim_config (Presence_ptr away) (sim_start []))
     = Inr [''event_type'' \<mapsto> VString ''presence'', ''from'' \<mapsto> VString ''123@s.whatsapp.net'',
            ''timestamp'' \<mapsto> VString ''2024-01-01T12:00:00Z'',
            ''status'' \<mapsto> VString ''offline'',
            ''last_seen'' \<mapsto> VString ''2024-01-01T11:59:00Z'']"
    by (simp add: dispatch_def createPresencePayload_def Let_def away_def sim_deps_def
        sim_start_def noon_def)
  have b: "fst (dispatch sim_deps sim_config (Presence_ptr away) a_second_later)
     = Inr [''event_type'' \<mapsto> VString ''presence'', ''from'' \<mapsto> VString ''123@s.whatsapp.net'',
            ''timestamp'' \<mapsto> VString ''2024-01-01T12:00:01Z'',
            ''status'' \<mapsto> VString ''offline'',
            ''last_seen'' \<mapsto> VString ''2024-01-01T11:59:00Z'']"
    by (simp add: dispatch_def createPresencePayload_def Let_def away_def sim_deps_def
        a_second_later_def)
  have "[''event_type'' \<mapsto> VString ''presence'', ''from'' \<mapsto> VString ''123@s.whatsapp.net'',
            ''timestamp'' \<mapsto> VString ''2024-01-01T12:00:00Z'',
            ''status'' \<mapsto> VString ''offline'',
            ''last_seen'' \<mapsto> VString ''2024-01-01T11:59:00Z''] ''timestamp''
     \<noteq> [''event_type'' \<mapsto> VString ''presence'', ''from'' \<mapsto> VString ''123@s.whatsapp.net'',
            ''timestamp'' \<mapsto> VString ''2024-01-01T12:00:01Z'',
            ''status'' \<mapsto> VString ''offline'',
            ''last_seen'' \<mapsto> VString ''2024-01-01T11:59:00Z''] ''timestamp''"
    by simp
  then have "fst (dispatch sim_deps sim_config (Presence_ptr away) (sim_start []))
       \<noteq> fst (dispatch sim_deps sim_config (Presence_ptr away) a_second_later)"
    unfolding a b by (metis sum.inject(2))
  with a b show ?thesis by blast
qed

subsection \<open>The retry loop\<close>

lemma body_read_0 [simp]: "body_read 0 req = req"
  by (simp add: body_read_def)

lemma body_read_twice [simp]: "body_read n (body_read m req) = body_read (m + n) req"
  by (simp add: body_read_def add.commute)

lemma body_read_fields [simp]:
  "Method (body_read n req) = Method req" "URL (body_read n req) = URL req"
  "Header (body_read n req) = Header req" "Body (body_read n req) = drop n (Body req)"
  by (simp_all add: body_read_def)

lemma retry_exit:
  "\<not> attempt < m \<Longrightarrow> retry d req m attempt sd err s =
     (Some (WebhookError (''error when submit webhook after '' @ Sprintf_d attempt
        @ '' attempts: '' @ Sprintf_v err)), s)"
  by (simp add: retry.simps)

lemma retry_success:
  "attempt < m \<Longrightarrow> client_Do d req (world s) = (Inr resp, n, w) \<Longrightarrow>
   retry d req m attempt sd err s = (None, \<lparr>world = w, trace = trace s @ [Attempt req (Inr resp)]\<rparr>)"
  by (simp add: retry.simps do_request_def)

lemma retry_failure:
  "attempt < m \<Longrightarrow> client_Do d req (world s) = (Inl e, n, w) \<Longrightarrow>
   retry d req m attempt sd err s =
     retry d (body_read n req) m (attempt + 1) (int64 (sd * 2)) (Some e)
       \<lparr>world = time_Sleep d sd w, trace = trace s @ [Attempt req (Inl e), Sleep sd]\<rparr>"
  by (simp add: retry.simps [of d req m attempt] do_request_def sleep_def)

text \<open>
  Every run of the loop is a number of failed rounds, followed either by one attempt
  that the transport answers (success) or by nothing (the attempts are used up). Each
  round hands over the request as the rounds before have left it.
\<close>

lemma retry_shape:
  "retry d req m a sd err s = (r, s') \<Longrightarrow>
   \<exists>es. ((\<exists>resp. r = None \<and> a + int (length es) < m
          \<and> trace s' = trace s @ failed_rounds req sd es @ [Attempt (after_rounds req es) (Inr resp)])
      \<or> (r = Some (WebhookError (''error when submit webhook after ''
                @ Sprintf_d (a + int (length es)) @ '' attempts: ''
                @ Sprintf_v (if es = [] then err else Some (fst (last es)))))
          \<and> \<not> a + int (length es) < m \<and> (es \<noteq> [] \<longrightarrow> a + int (length es) = m)
          \<and> trace s' = trace s @ failed_rounds req sd es))"
proof (induction d req m a sd err s arbitrary: r s' rule: retry.induct)
  case (1 d req m a sd err s)
  show ?case
  proof (cases "a < m")
    case False
    with "1.prems" have "r = Some (WebhookError (''error when submit webhook after ''
          @ Sprintf_d a @ '' attempts: '' @ Sprintf_v err))" and "s' = s"
      by (simp_all add: retry_exit)
    with False show ?thesis
      by (intro exI [of _ "[]"]) simp
  next
    case True
    obtain out n w where do: "client_Do d req (world s) = (out, n, w)"
      by (cases "client_Do d req (world s)")
    show ?thesis
    proof (cases out)
      case (Inr resp)
      with True do "1.prems" have "r = None"
        and "s' = \<lparr>world = w, trace = trace s @ [Attempt req (Inr resp)]\<rparr>"
        by (simp_all add: retry_success)
      then show ?thesis using True
        by (intro exI [of _ "[]"]) auto
    next
      case (Inl e)
      let ?s2 = "\<lparr>world = time_Sleep d sd w, trace = trace s @ [Attempt req (Inl e), Sleep sd]\<rparr>"
      let ?req = "body_read n req"
      have dr: "do_request d req s
          = (Inl e, ?req, \<lparr>world = w, trace = trace s @ [Attempt req (Inl e)]\<rparr>)"
        using do Inl by (simp add: do_request_def)
      have sl: "sleep d sd \<lparr>world = w, trace = trace s @ [Attempt req (Inl e)]\<rparr> = ?s2"
        by (simp add: sleep_def)
      from True do Inl "1.prems"
      have rec: "retry d ?req m (a + 1) (int64 (sd * 2)) (Some e) ?s2 = (r, s')"
        by (simp add: retry_failure)
      from "1.IH" [OF True dr [symmetric] refl refl, unfolded sl, OF rec]
      obtain es where
        alt: "(\<exists>resp. r = None
              \<and> a + 1 + int (length es) < m
              \<and> trace s' = trace ?s2 @ failed_rounds ?req (int64 (sd * 2)) es
                   @ [Attempt (after_rounds ?req es) (Inr resp)])
          \<or> (r = Some (WebhookError (''error when submit webhook after ''
                @ Sprintf_d (a + 1 + int (length es)) @ '' attempts: ''
                @ Sprintf_v (if es = [] then Some e else Some (fst (last es)))))
              \<and> \<not> a + 1 + int (length es) < m \<and> (es \<noteq> [] \<longrightarrow> a + 1 + int (length es) = m)
              \<and> trace s' = trace ?s2 @ failed_rounds ?req (int64 (sd * 2)) es)"
        by blast
      have len: "a + int (length ((e, n) # es)) = a + 1 + int (length es)" by simp
      have lst: "(if (e, n) # es = [] then err else Some (fst (last ((e, n) # es))))
          = (if es = [] then Some e else Some (fst (last es)))" by simp
      have full: "a + 1 + int (length es) = m"
        if "\<not> a + 1 + int (length es) < m" "es \<noteq> [] \<longrightarrow> a + 1 + int (length es) = m"
        using that True by (cases "es = []") auto
      show ?thesis
        using alt
      proof
        assume "\<exists>resp. r = None
              \<and> a + 1 + int (length es) < m
              \<and> trace s' = trace ?s2 @ failed_rounds ?req (int64 (sd * 2)) es
                   @ [Attempt (after_rounds ?req es) (Inr resp)]"
        then show ?thesis
          by (intro exI [of _ "(e, n) # es"]) (simp only: len, auto)
      next
        assume f: "r = Some (WebhookError (''error when submit webhook after ''
                @ Sprintf_d (a + 1 + int (length es)) @ '' attempts: ''
                @ Sprintf_v (if es = [] then Some e else Some (fst (last es)))))
              \<and> \<not> a + 1 + int (length es) < m \<and> (es \<noteq> [] \<longrightarrow> a + 1 + int (length es) = m)
              \<and> trace s' = trace ?s2 @ failed_rounds ?req (int64 (sd * 2)) es"
        then have "a + 1 + int (length es) = m" using full by blast
        with f show ?thesis
          by (intro exI [of _ "(e, n) # es"]) (simp only: len lst, auto)
      qed
    qed
  qed
qed

subsection \<open>Traces\<close>

lemma attempts_of_append: "attempts_of (xs @ ys) = attempts_of xs @ attempts_of ys"
  by (induction xs rule: attempts_of.induct) simp_all

lemma failed_rounds_outcomes:
  "map snd (attempts_of (failed_rounds req sd es)) = map (\<lambda>x. Inl (fst x)) es"
  by (induction req sd es rule: failed_rounds.induct) simp_all

lemma failed_rounds_attempts:
  "length (attempts_of (failed_rounds req sd es)) = length es"
  by (induction req sd es rule: failed_rounds.induct) simp_all

lemma no_answer_in_failed_rounds: "Attempt q (Inr resp) \<notin> set (failed_rounds req sd es)"
  by (induction req sd es rule: failed_rounds.induct) simp_all

lemma request_of_failed_rounds:
  "Attempt q out \<in> set (failed_rounds req sd es) \<Longrightarrow> \<exists>n. q = body_read n req"
proof (induction req sd es rule: failed_rounds.induct)
  case (1 req sd)
  then show ?case by simp
next
  case (2 req sd e n es)
  from "2.prems" have "q = req \<or> Attempt q out \<in> set (failed_rounds (body_read n req) (int64 (sd * 2)) es)"
    by auto
  then show ?case
  proof
    assume "q = req"
    then have "q = body_read 0 req" by simp
    then show ?thesis by blast
  next
    assume "Attempt q out \<in> set (failed_rounds (body_read n req) (int64 (sd * 2)) es)"
    from "2.IH" [OF this] obtain k where "q = body_read k (body_read n req)" by blast
    then have "q = body_read (n + k) req" by simp
    then show ?thesis by blast
  qed
qed

lemma request_after_rounds: "\<exists>n. after_rounds req es = body_read n req"
proof (induction req es rule: after_rounds.induct)
  case (1 req)
  have "after_rounds req [] = body_read 0 req" by simp
  then show ?case by (rule exI)
next
  case (2 req e n es)
  then obtain k where "after_rounds (body_read n req) es = body_read k (body_read n req)" by blast
  then have "after_rounds req ((e, n) # es) = body_read (n + k) req" by simp
  then show ?case by blast
qed

lemma new_effects_append: "trace s' = trace s @ tr \<Longrightarrow> new_effects s s' = tr"
  by (simp add: new_effects_def)

lemma new_effects_same [simp]: "new_effects s s = []"
  by (simp add: new_effects_def)

lemma five_elements: "length es = 5 \<Longrightarrow> \<exists>a b c d e. es = [a, b, c, d, e]"
  by (auto simp: numeral_eq_Suc length_Suc_conv)

lemma failed_rounds_five:
  "failed_rounds req Second [(a, na), (b, nb), (c, nc), (d, nd), (e, ne)] =
     [Attempt req (Inl a), Sleep (1 * Second),
      Attempt (body_read na req) (Inl b), Sleep (2 * Second),
      Attempt (body_read (na + nb) req) (Inl c), Sleep (4 * Second),
      Attempt (body_read (na + nb + nc) req) (Inl d), Sleep (8 * Second),
      Attempt (body_read (na + nb + nc + nd) req) (Inl e), Sleep (16 * Second)]"
  by (simp add: int64_def Second_def)

lemma nothing_after:
  assumes "x \<notin> set xs" and "pre @ x # post = xs @ [y]"
  shows "post = [] \<and> x = y"
proof (cases post rule: rev_cases)
  case Nil
  with assms(2) show ?thesis by simp
next
  case (snoc ps p)
  with assms(2) have "pre @ x # ps = xs" by simp
  then have "x \<in> set xs" by auto
  with assms(1) show ?thesis by simp
qed

lemma two_failures_then_answer:
  assumes "map (\<lambda>x. Inl (fst x)) es @ [Inr resp'] = Inl e1 # Inl e2 # Inr resp # rest"
  shows "(\<exists>n1 n2. es = [(e1, n1), (e2, n2)]) \<and> resp' = resp \<and> rest = []"
proof (cases es)
  case Nil
  with assms show ?thesis by simp
next
  case (Cons a as)
  note es = this
  show ?thesis
  proof (cases as)
    case Nil
    with es assms show ?thesis by simp
  next
    case (Cons b bs)
    with es assms show ?thesis by (cases bs; cases a; cases b) auto
  qed
qed

lemma no_answer_among_failures:
  "map (\<lambda>x. Inl (fst x)) es \<noteq> Inl e1 # Inl e2 # Inr resp # rest"
proof (cases es)
  case Nil
  then show ?thesis by simp
next
  case (Cons a as)
  note es = this
  show ?thesis
  proof (cases as)
    case Nil
    with es show ?thesis by simp
  next
    case (Cons b bs)
    with es show ?thesis by (cases bs) auto
  qed
qed

subsection \<open>Runs of submitWebhook\<close>

lemma Sprintf_d_5: "Sprintf_d 5 = ''5''"
  by (simp add: Sprintf_d_def digits.simps)

lemma submitWebhook_built:
  assumes "json_Marshal d payload = Inr body" and "url_Parse d url = None"
    and "getMessageDigestOrSignature d body (WhatsappWebhookSecret c) = Inr sg"
  shows "submitWebhook d c payload url s = retry d (signed_request url body sg) 5 0 Second None s"
  using assms
  by (simp add: submitWebhook_def http_NewRequest_def Header_Set_def signed_request_def Let_def)

text \<open>
  The three ways in which \<open>submitWebhook\<close> ends: before the first attempt (the
  payload does not serialise, the URL does not parse, or signing fails), with an attempt
  that the transport answers after fewer than five failed ones, or after five failed
  attempts.
\<close>

lemma submitWebhook_cases [consumes 1, case_names early answered exhausted]:
  assumes "submitWebhook d c payload url s = (r, s')"
  obtains
    m where "s' = s" "r = Some (WebhookError m)"
      "\<forall>body. json_Marshal d payload = Inr body \<longrightarrow>
         url_Parse d url \<noteq> None
         \<or> isl (getMessageDigestOrSignature d body (WhatsappWebhookSecret c))"
  | body sg es resp where "json_Marshal d payload = Inr body" "url_Parse d url = None"
      "getMessageDigestOrSignature d body (WhatsappWebhookSecret c) = Inr sg"
      "r = None" "length es < 5"
      "trace s' = trace s @ failed_rounds (signed_request url body sg) Second es
         @ [Attempt (after_rounds (signed_request url body sg) es) (Inr resp)]"
  | body sg es where "json_Marshal d payload = Inr body" "url_Parse d url = None"
      "getMessageDigestOrSignature d body (WhatsappWebhookSecret c) = Inr sg"
      "r = Some (WebhookError (''error when submit webhook after 5 attempts: ''
          @ error_text (fst (last es))))"
      "length es = 5"
      "trace s' = trace s @ failed_rounds (signed_request url body sg) Second es"
proof (cases "json_Marshal d payload")
  case (Inl e)
  with assms have "s' = s"
    and "r = Some (WebhookError (''Failed to marshal body: '' @ error_text e))"
    by (simp_all add: submitWebhook_def)
  moreover from Inl have "\<forall>body. json_Marshal d payload = Inr body \<longrightarrow>
         url_Parse d url \<noteq> None
         \<or> isl (getMessageDigestOrSignature d body (WhatsappWebhookSecret c))" by simp
  ultimately show thesis by (rule that(1))
next
  case (Inr body)
  note body = this
  show thesis
  proof (cases "url_Parse d url")
    case (Some e)
    with body assms have "s' = s"
      and "r = Some (WebhookError (''error when create http object '' @ error_text e))"
      by (simp_all add: submitWebhook_def http_NewRequest_def)
    moreover from Some have "\<forall>body. json_Marshal d payload = Inr body \<longrightarrow>
         url_Parse d url \<noteq> None
         \<or> isl (getMessageDigestOrSignature d body (WhatsappWebhookSecret c))" by simp
    ultimately show thesis by (rule that(1))
  next
    case None
    show thesis
    proof (cases "getMessageDigestOrSignature d body (WhatsappWebhookSecret c)")
      case (Inl e)
      with body None assms have "s' = s"
        and "r = Some (WebhookError (''error when create signature '' @ error_text e))"
        by (simp_all add: submitWebhook_def http_NewRequest_def Let_def)
      moreover from Inl body have "\<forall>body. json_Marshal d payload = Inr body \<longrightarrow>
         url_Parse d url \<noteq> None
         \<or> isl (getMessageDigestOrSignature d body (WhatsappWebhookSecret c))" by simp
      ultimately show thesis by (rule that(1))
    next
      case (Inr sg)
      let ?req = "signed_request url body sg"
      from assms have run: "retry d ?req 5 0 Second None s = (r, s')"
        by (simp add: submitWebhook_built [OF body None Inr])
      from retry_shape [OF run] obtain es where
        alt: "(\<exists>resp. r = None
                \<and> 0 + int (length es) < 5
                \<and> trace s' = trace s @ failed_rounds ?req Second es
                     @ [Attempt (after_rounds ?req es) (Inr resp)])
          \<or> (r = Some (WebhookError (''error when submit webhook after ''
                  @ Sprintf_d (0 + int (length es)) @ '' attempts: ''
                  @ Sprintf_v (if es = [] then None else Some (fst (last es)))))
              \<and> \<not> 0 + int (length es) < 5 \<and> (es \<noteq> [] \<longrightarrow> 0 + int (length es) = 5)
              \<and> trace s' = trace s @ failed_rounds ?req Second es)"
        by blast
      from alt show thesis
      proof
        assume "\<exists>resp. r = None
                \<and> 0 + int (length es) < 5
                \<and> trace s' = trace s @ failed_rounds ?req Second es
                     @ [Attempt (after_rounds ?req es) (Inr resp)]"
        then obtain resp where "r = None" "length es < 5"
          "trace s' = trace s @ failed_rounds ?req Second es
             @ [Attempt (after_rounds ?req es) (Inr resp)]"
          by auto
        with body None Inr show thesis by (rule that(2))
      next
        assume f: "r = Some (WebhookError (''error when submit webhook after ''
                  @ Sprintf_d (0 + int (length es)) @ '' attempts: ''
                  @ Sprintf_v (if es = [] then None else Some (fst (last es)))))
              \<and> \<not> 0 + int (length es) < 5 \<and> (es \<noteq> [] \<longrightarrow> 0 + int (length es) = 5)
              \<and> trace s' = trace s @ failed_rounds ?req Second es"
        then have ne: "es \<noteq> []" by auto
        with f have len: "length es = 5" by auto
        with f ne have r: "r = Some (WebhookError (''error when submit webhook after 5 attempts: ''
                          @ error_text (fst (last es))))"
          by (simp add: Sprintf_d_5 Sprintf_v_def)
        from f have "trace s' = trace s @ failed_rounds ?req Second es" by simp
        with body None Inr r len show thesis by (rule that(3))
      qed
    qed
  qed
qed

text \<open>Two runs in the simulated environment.\<close>

lemma sim_built:
  "json_Marshal refusing_deps message_payload = Inr ''event_type=message''"
  "url_Parse refusing_deps ''http://a.example/hook'' = None"
  "getMessageDigestOrSignature refusing_deps ''event_type=message'' (WhatsappWebhookSecret sim_config)
     = Inr ''c0ffee''"
  by (simp_all add: refusing_deps_def sim_deps_def sim_config_def message_payload_def)

lemma refused_run:
  "submitWebhook refusing_deps sim_config message_payload ''http://a.example/hook'' (sim_start [])
   = (Some (WebhookError ''error when submit webhook after 5 attempts: connection refused''),
      \<lparr>world = \<lparr>responses = [], clock = noon\<rparr>,
       trace = [Attempt hook_request (Inl (OtherError ''connection refused'')), Sleep 1000000000,
                Attempt hook_request (Inl (OtherError ''connection refused'')), Sleep 2000000000,
                Attempt hook_request (Inl (OtherError ''connection refused'')), Sleep 4000000000,
                Attempt hook_request (Inl (OtherError ''connection refused'')), Sleep 8000000000,
                Attempt hook_request (Inl (OtherError ''connection refused'')), Sleep 16000000000]\<rparr>)"
  unfolding submitWebhook_built [OF sim_built] hook_request_def [symmetric]
  by (simp add: retry.simps do_request_def sleep_def refusing_deps_def sim_deps_def sim_start_def
      Second_def int64_def Sprintf_d_def Sprintf_v_def digits.simps)

lemma sim_built_flaky:
  "json_Marshal sim_deps message_payload = Inr ''event_type=message''"
  "url_Parse sim_deps ''http://a.example/hook'' = None"
  "getMessageDigestOrSignature sim_deps ''event_type=message'' (WhatsappWebhookSecret sim_config)
     = Inr ''c0ffee''"
  by (simp_all add: sim_deps_def sim_config_def message_payload_def)

lemma sim_built_silent:
  "json_Marshal silent_deps message_payload = Inr ''event_type=message''"
  "url_Parse silent_deps ''http://a.example/hook'' = None"
  "getMessageDigestOrSignature silent_deps ''event_type=message'' (WhatsappWebhookSecret sim_config)
     = Inr ''c0ffee''"
  by (simp_all add: silent_deps_def sim_deps_def sim_config_def message_payload_def)

lemma flaky_run:
  "submitWebhook sim_deps sim_config message_payload ''http://a.example/hook'' (sim_start flaky)
   = (None,
      \<lparr>world = \<lparr>responses = [], clock = noon\<rparr>,
       trace = [Attempt hook_request (Inl (OtherError ''timeout'')), Sleep 1000000000,
                Attempt hook_request (Inl (OtherError ''timeout'')), Sleep 2000000000,
                Attempt hook_request (Inr \<lparr>StatusCode = 500\<rparr>)]\<rparr>)"
  unfolding submitWebhook_built [OF sim_built_flaky] hook_request_def [symmetric]
  by (simp add: retry.simps do_request_def sleep_def sim_deps_def sim_start_def flaky_def
      Second_def int64_def)

lemma silent_run:
  "submitWebhook silent_deps sim_config message_payload ''http://a.example/hook'' (sim_start [])
   = (Some (WebhookError ''error when submit webhook after 5 attempts: no response''),
      \<lparr>world = \<lparr>responses = [], clock = noon\<rparr>,
       trace = [Attempt hook_request (Inl (OtherError ''no response'')), Sleep 1000000000,
                Attempt drained_request (Inl (OtherError ''no response'')), Sleep 2000000000,
                Attempt drained_request (Inl (OtherError ''no response'')), Sleep 4000000000,
                Attempt drained_request (Inl (OtherError ''no response'')), Sleep 8000000000,
                Attempt drained_request (Inl (OtherError ''no response'')), Sleep 16000000000]\<rparr>)"
  unfolding submitWebhook_built [OF sim_built_silent]
  by (simp add: retry.simps do_request_def sleep_def silent_deps_def sim_deps_def sim_start_def
      Second_def int64_def Sprintf_d_def Sprintf_v_def digits.simps body_read_def
      hook_request_def drained_request_def signed_request_def)

lemma five_rounds:
  assumes "length (es :: (error \<times> nat) list) = 5"
  shows "\<exists>a na b nb c nc d nd e ne. es = [(a, na), (b, nb), (c, nc), (d, nd), (e, ne)]"
proof -
  from five_elements [OF assms] obtain x1 x2 x3 x4 x5 where es: "es = [x1, x2, x3, x4, x5]"
    by blast
  obtain a na where "x1 = (a, na)" by (cases x1)
  moreover obtain b nb where "x2 = (b, nb)" by (cases x2)
  moreover obtain c nc where "x3 = (c, nc)" by (cases x3)
  moreover obtain d nd where "x4 = (d, nd)" by (cases x4)
  moreover obtain e ne where "x5 = (e, ne)" by (cases x5)
  ultimately have "es = [(a, na), (b, nb), (c, nc), (d, nd), (e, ne)]" using es by simp
  then show ?thesis by blast
qed

subsection \<open>The delivery engine\<close>

text \<open>
  C1, as amended. Let the payload serialise, the URL parse and the signing succeed, so
  that the retry loop is reached. If every attempt of the run returned a transport
  error, then \<open>submitWebhook\<close> made exactly 5 attempts, the waits between
  consecutive attempts were 1, 2, 4 and 8 seconds, and it returned the error
  \<open>error when submit webhook after 5 attempts: \<close> followed by the text of the
  error of the last attempt.
\<close>

theorem delivery_exhausted:
  assumes "json_Marshal d payload = Inr body"
    and "url_Parse d url = None"
    and "getMessageDigestOrSignature d body (WhatsappWebhookSecret c) = Inr sg"
    and "submitWebhook d c payload url s = (r, s')"
    and "\<forall>x\<in>set (attempts_of (new_effects s s')). isl (snd x)"
  shows "\<exists>e. length (attempts_of (new_effects s s')) = 5
     \<and> waits_between (new_effects s s') = [1 * Second, 2 * Second, 4 * Second, 8 * Second]
     \<and> snd (last (attempts_of (new_effects s s'))) = Inl e
     \<and> r = Some (WebhookError (''error when submit webhook after 5 attempts: '' @ error_text e))"
  using assms(4)
proof (cases rule: submitWebhook_cases)
  case (early m)
  with assms(1-3) show ?thesis by simp
next
  case (answered body' sg' es resp)
  then have "new_effects s s' = failed_rounds (signed_request url body' sg') Second es
      @ [Attempt (after_rounds (signed_request url body' sg') es) (Inr resp)]"
    by (simp add: new_effects_append)
  then have "(after_rounds (signed_request url body' sg') es, Inr resp)
      \<in> set (attempts_of (new_effects s s'))"
    by (simp add: attempts_of_append)
  with assms(5) show ?thesis by force
next
  case (exhausted body' sg' es)
  let ?req = "signed_request url body' sg'"
  from five_rounds [OF exhausted(5)] obtain a na b nb c nc d nd e ne
    where es: "es = [(a, na), (b, nb), (c, nc), (d, nd), (e, ne)]"
    by blast
  from exhausted(6) have "new_effects s s' = failed_rounds ?req Second es"
    by (simp add: new_effects_append)
  then have tr: "new_effects s s' =
     [Attempt ?req (Inl a), Sleep (1 * Second),
      Attempt (body_read na ?req) (Inl b), Sleep (2 * Second),
      Attempt (body_read (na + nb) ?req) (Inl c), Sleep (4 * Second),
      Attempt (body_read (na + nb + nc) ?req) (Inl d), Sleep (8 * Second),
      Attempt (body_read (na + nb + nc + nd) ?req) (Inl e), Sleep (16 * Second)]"
    unfolding es by (simp only: failed_rounds_five)
  from exhausted(4) es
  have "r = Some (WebhookError (''error when submit webhook after 5 attempts: '' @ error_text e))"
    by simp
  then show ?thesis
    by (intro exI [of _ e]) (simp add: tr waits_between_def)
qed

theorem delivery_exhausted_witness:
  "fst (submitWebhook refusing_deps sim_config message_payload ''http://a.example/hook''
        (sim_start []))
     = Some (WebhookError ''error when submit webhook after 5 attempts: connection refused'')
   \<and> length (attempts_of (new_effects (sim_start [])
        (snd (submitWebhook refusing_deps sim_config message_payload ''http://a.example/hook''
           (sim_start []))))) = 5
   \<and> waits_between (new_effects (sim_start [])
        (snd (submitWebhook refusing_deps sim_config message_payload ''http://a.example/hook''
           (sim_start []))))
       = [1000000000, 2000000000, 4000000000, 8000000000]"
proof -
  let ?s' = "snd (submitWebhook refusing_deps sim_config message_payload
     ''http://a.example/hook'' (sim_start []))"
  have all: "\<forall>x\<in>set (attempts_of (new_effects (sim_start []) ?s')). isl (snd x)"
    unfolding refused_run by (simp add: new_effects_def sim_start_def)
  have run: "submitWebhook refusing_deps sim_config message_payload ''http://a.example/hook''
      (sim_start []) = (Some (WebhookError
        ''error when submit webhook after 5 attempts: connection refused''), ?s')"
    by (simp add: refused_run)
  from delivery_exhausted [OF sim_built run all]
  have "length (attempts_of (new_effects (sim_start []) ?s')) = 5"
    and "waits_between (new_effects (sim_start []) ?s')
       = [1000000000, 2000000000, 4000000000, 8000000000]"
    by (simp_all add: Second_def)
  moreover have "fst (submitWebhook refusing_deps sim_config message_payload
      ''http://a.example/hook'' (sim_start []))
     = Some (WebhookError ''error when submit webhook after 5 attempts: connection refused'')"
    by (simp add: refused_run)
  ultimately show ?thesis by blast
qed

text \<open>
  C1 as stated, for every payload and endpoint, fails where the loop is not reached: the
  endpoint \<open>://example.com\<close> does not parse, so \<open>http.NewRequest\<close> fails,
  no attempt is made although the transport would refuse every one, and the error is
  the one of the request construction.
\<close>

theorem delivery_exhausted_counterexample:
  "submitWebhook refusing_deps sim_config message_payload ''://example.com'' (sim_start [])
     = (Some (WebhookError ''error when create http object missing protocol scheme''),
        sim_start [])
   \<and> attempts_of (new_effects (sim_start []) (sim_start [])) = []"
  by (simp add: submitWebhook_def http_NewRequest_def refusing_deps_def sim_deps_def
      message_payload_def)


text \<open>
  C2. In every run of \<open>submitWebhook\<close>, an attempt that the transport answers
  without error, whatever the status code of the response, is the last effect of the
  run and the run returns success; a successful run ends with such an attempt. In
  particular, when the first two attempts fail and the third is answered, the run is
  exactly three attempts on the one request object (each finds the body as the
  attempts before have left it) with the sleeps of 1 and 2 seconds between them,
  nothing after the third, and the result is success.
\<close>

theorem delivery_succeeds_at_first_answer:
  assumes "submitWebhook d c payload url s = (r, s')"
  shows "(\<forall>pre q resp post. new_effects s s' = pre @ Attempt q (Inr resp) # post
            \<longrightarrow> r = None \<and> post = [])
       \<and> (r = None \<longrightarrow> (\<exists>pre q resp. new_effects s s' = pre @ [Attempt q (Inr resp)]))
       \<and> (\<forall>e1 e2 resp rest.
            map snd (attempts_of (new_effects s s')) = Inl e1 # Inl e2 # Inr resp # rest
            \<longrightarrow> r = None \<and> rest = [] \<and> length (attempts_of (new_effects s s')) = 3
               \<and> (\<exists>q n1 n2. new_effects s s'
                     = [Attempt q (Inl e1), Sleep (1 * Second),
                        Attempt (body_read n1 q) (Inl e2), Sleep (2 * Second),
                        Attempt (body_read n2 q) (Inr resp)]))"
  using assms
proof (cases rule: submitWebhook_cases)
  case (early m)
  then show ?thesis by simp
next
  case (answered body sg es resp)
  let ?req = "signed_request url body sg"
  from answered(6) have tr: "new_effects s s'
      = failed_rounds ?req Second es @ [Attempt (after_rounds ?req es) (Inr resp)]"
    by (simp add: new_effects_append)
  have one: "r = None \<and> post = []"
    if h: "new_effects s s' = pre @ Attempt q (Inr resp') # post" for pre q resp' post
  proof -
    from h tr have "pre @ Attempt q (Inr resp') # post
        = failed_rounds ?req Second es @ [Attempt (after_rounds ?req es) (Inr resp)]" by simp
    from nothing_after [OF no_answer_in_failed_rounds this] answered(4)
    show ?thesis by simp
  qed
  have last_one: "\<exists>pre q resp. new_effects s s' = pre @ [Attempt q (Inr resp)]"
    unfolding tr by (intro exI) (rule refl)
  have three: "r = None \<and> rest = [] \<and> length (attempts_of (new_effects s s')) = 3
      \<and> (\<exists>q n1 n2. new_effects s s'
            = [Attempt q (Inl e1), Sleep (1 * Second),
               Attempt (body_read n1 q) (Inl e2), Sleep (2 * Second),
               Attempt (body_read n2 q) (Inr resp')])"
    if h: "map snd (attempts_of (new_effects s s')) = Inl e1 # Inl e2 # Inr resp' # rest"
    for e1 e2 resp' rest
  proof -
    from h have "map (\<lambda>x. Inl (fst x)) es @ [Inr resp] = Inl e1 # Inl e2 # Inr resp' # rest"
      by (simp add: tr attempts_of_append failed_rounds_outcomes)
    from two_failures_then_answer [OF this]
    obtain n1 n2 where es: "es = [(e1, n1), (e2, n2)]" and "resp = resp'" and rest: "rest = []"
      by blast
    then have eff: "new_effects s s' = [Attempt ?req (Inl e1), Sleep (1 * Second),
               Attempt (body_read n1 ?req) (Inl e2), Sleep (2 * Second),
               Attempt (body_read (n1 + n2) ?req) (Inr resp')]"
      by (simp add: tr int64_def Second_def)
    then have len: "length (attempts_of (new_effects s s')) = 3" by simp
    from eff have "\<exists>q n1 n2. new_effects s s'
            = [Attempt q (Inl e1), Sleep (1 * Second),
               Attempt (body_read n1 q) (Inl e2), Sleep (2 * Second),
               Attempt (body_read n2 q) (Inr resp')]"
      by (intro exI)
    with len answered(4) rest show ?thesis by simp
  qed
  have p1: "\<forall>pre q resp post. new_effects s s' = pre @ Attempt q (Inr resp) # post
            \<longrightarrow> r = None \<and> post = []"
    using one by blast
  have p3: "\<forall>e1 e2 resp rest.
            map snd (attempts_of (new_effects s s')) = Inl e1 # Inl e2 # Inr resp # rest
            \<longrightarrow> r = None \<and> rest = [] \<and> length (attempts_of (new_effects s s')) = 3
               \<and> (\<exists>q n1 n2. new_effects s s'
                     = [Attempt q (Inl e1), Sleep (1 * Second),
                        Attempt (body_read n1 q) (Inl e2), Sleep (2 * Second),
                        Attempt (body_read n2 q) (Inr resp)])"
    using three by blast
  from p1 last_one p3 show ?thesis by simp
next
  case (exhausted body sg es)
  let ?req = "signed_request url body sg"
  from exhausted(6) have tr: "new_effects s s' = failed_rounds ?req Second es"
    by (simp add: new_effects_append)
  have p1: "\<forall>pre q resp post. new_effects s s' = pre @ Attempt q (Inr resp) # post
            \<longrightarrow> r = None \<and> post = []"
  proof (intro allI impI)
    fix pre q resp post
    assume "new_effects s s' = pre @ Attempt q (Inr resp) # post"
    then have "Attempt q (Inr resp) \<in> set (failed_rounds ?req Second es)"
      by (simp add: tr [symmetric])
    then show "r = None \<and> post = []" by (simp add: no_answer_in_failed_rounds)
  qed
  have p2: "r = None \<longrightarrow> (\<exists>pre q resp. new_effects s s' = pre @ [Attempt q (Inr resp)])"
    using exhausted(4) by simp
  have p3: "\<forall>e1 e2 resp rest.
            map snd (attempts_of (new_effects s s')) = Inl e1 # Inl e2 # Inr resp # rest
            \<longrightarrow> r = None \<and> rest = [] \<and> length (attempts_of (new_effects s s')) = 3
               \<and> (\<exists>q n1 n2. new_effects s s'
                     = [Attempt q (Inl e1), Sleep (1 * Second),
                        Attempt (body_read n1 q) (Inl e2), Sleep (2 * Second),
                        Attempt (body_read n2 q) (Inr resp)])"
    by (simp add: tr failed_rounds_outcomes no_answer_among_failures)
  from p1 p2 p3 show ?thesis by (intro conjI)
qed

theorem delivery_succeeds_at_first_answer_witness:
  "fst (submitWebhook sim_deps sim_config message_payload ''http://a.example/hook''
        (sim_start flaky)) = None
   \<and> length (attempts_of (new_effects (sim_start flaky)
        (snd (submitWebhook sim_deps sim_config message_payload ''http://a.example/hook''
           (sim_start flaky))))) = 3
   \<and> new_effects (sim_start flaky)
        (snd (submitWebhook sim_deps sim_config message_payload ''http://a.example/hook''
           (sim_start flaky)))
       = [Attempt hook_request (Inl (OtherError ''timeout'')), Sleep 1000000000,
          Attempt hook_request (Inl (OtherError ''timeout'')), Sleep 2000000000,
          Attempt hook_request (Inr \<lparr>StatusCode = 500\<rparr>)]"
proof -
  let ?run = "submitWebhook sim_deps sim_config message_payload ''http://a.example/hook''
     (sim_start flaky)"
  have tr: "new_effects (sim_start flaky) (snd ?run)
       = [Attempt hook_request (Inl (OtherError ''timeout'')), Sleep 1000000000,
          Attempt hook_request (Inl (OtherError ''timeout'')), Sleep 2000000000,
          Attempt hook_request (Inr \<lparr>StatusCode = 500\<rparr>)]"
    unfolding flaky_run by (simp add: new_effects_def sim_start_def)
  have outs: "map snd (attempts_of (new_effects (sim_start flaky) (snd ?run)))
      = Inl (OtherError ''timeout'') # Inl (OtherError ''timeout'') # Inr \<lparr>StatusCode = 500\<rparr> # []"
    unfolding tr by simp
  have run: "?run = (fst ?run, snd ?run)" by simp
  from delivery_succeeds_at_first_answer [OF run, THEN conjunct2, THEN conjunct2,
      rule_format, OF outs]
  have "fst ?run = None" and "length (attempts_of (new_effects (sim_start flaky) (snd ?run))) = 3"
    by simp_all
  with tr show ?thesis by simp
qed


text \<open>
  What holds of every request that \<open>submitWebhook\<close> hands to the transport, when
  the payload serialises to \<open>body\<close>: it is a POST to the endpoint URL with
  \<open>Content-Type: application/json\<close> and with \<open>X-Hub-Signature-256\<close> set to
  \<open>sha256=\<close> followed by the signature that \<open>getMessageDigestOrSignature\<close>
  computes from \<open>body\<close> and the configured secret, and its body is what is left of
  \<open>body\<close>. As soon as the URL parses and the signing succeeds there is a first
  attempt, and it carries \<open>body\<close> whole.
\<close>

lemma first_attempt:
  "\<exists>out rest. failed_rounds req sd es @ [Attempt (after_rounds req es) (Inr resp)]
     = Attempt req out # rest"
  by (cases es) auto

lemma first_failed_attempt:
  "es \<noteq> [] \<Longrightarrow> \<exists>out rest. failed_rounds req sd es = Attempt req out # rest"
  by (cases es) auto

lemma signed_request_fields:
  assumes "q = body_read n (signed_request url body sg)"
    and "getMessageDigestOrSignature d body (WhatsappWebhookSecret c) = Inr sg"
  shows "Method q = ''POST'' \<and> URL q = url \<and> (\<exists>n. Body q = drop n body)
      \<and> Header q ''Content-Type'' = Some ''application/json''
      \<and> (\<exists>sg. getMessageDigestOrSignature d body (WhatsappWebhookSecret c) = Inr sg
            \<and> Header q ''X-Hub-Signature-256'' = Some (''sha256='' @ sg))"
proof -
  from assms(1) have "Body q = drop n body" by (simp add: signed_request_def)
  then have "\<exists>n. Body q = drop n body" by (rule exI)
  with assms show ?thesis by (simp add: signed_request_def)
qed

theorem outbound_request_built:
  assumes "json_Marshal d payload = Inr body"
    and "submitWebhook d c payload url s = (r, s')"
  shows "(\<forall>q out. Attempt q out \<in> set (new_effects s s') \<longrightarrow>
            Method q = ''POST'' \<and> URL q = url \<and> (\<exists>n. Body q = drop n body)
            \<and> Header q ''Content-Type'' = Some ''application/json''
            \<and> (\<exists>sg. getMessageDigestOrSignature d body (WhatsappWebhookSecret c) = Inr sg
                  \<and> Header q ''X-Hub-Signature-256'' = Some (''sha256='' @ sg)))
       \<and> (\<forall>sg. url_Parse d url = None
            \<longrightarrow> getMessageDigestOrSignature d body (WhatsappWebhookSecret c) = Inr sg
            \<longrightarrow> (\<exists>out rest. new_effects s s' = Attempt (signed_request url body sg) out # rest))"
  using assms(2)
proof (cases rule: submitWebhook_cases)
  case (early m)
  from early(3) assms(1)
  have "url_Parse d url \<noteq> None
      \<or> isl (getMessageDigestOrSignature d body (WhatsappWebhookSecret c))" by simp
  with early(1) show ?thesis by auto
next
  case (answered body' sg es resp)
  from answered(1) assms(1) have same: "body' = body" by simp
  let ?req = "signed_request url body sg"
  from answered(6) have tr: "new_effects s s'
      = failed_rounds ?req Second es @ [Attempt (after_rounds ?req es) (Inr resp)]"
    by (simp add: new_effects_append same)
  have req: "\<exists>n. q = body_read n ?req" if "Attempt q out \<in> set (new_effects s s')" for q out
  proof -
    from that tr have "Attempt q out \<in> set (failed_rounds ?req Second es)
        \<or> q = after_rounds ?req es" by auto
    then show ?thesis
      using request_of_failed_rounds [of q out ?req Second es] request_after_rounds [of ?req es]
      by auto
  qed
  have p1: "\<forall>q out. Attempt q out \<in> set (new_effects s s') \<longrightarrow>
            Method q = ''POST'' \<and> URL q = url \<and> (\<exists>n. Body q = drop n body)
            \<and> Header q ''Content-Type'' = Some ''application/json''
            \<and> (\<exists>sg. getMessageDigestOrSignature d body (WhatsappWebhookSecret c) = Inr sg
                  \<and> Header q ''X-Hub-Signature-256'' = Some (''sha256='' @ sg))"
  proof (intro allI impI)
    fix q out assume "Attempt q out \<in> set (new_effects s s')"
    from req [OF this] obtain n where "q = body_read n ?req" by blast
    from signed_request_fields [OF this answered(3) [unfolded same]]
    show "Method q = ''POST'' \<and> URL q = url \<and> (\<exists>n. Body q = drop n body)
        \<and> Header q ''Content-Type'' = Some ''application/json''
        \<and> (\<exists>sg. getMessageDigestOrSignature d body (WhatsappWebhookSecret c) = Inr sg
              \<and> Header q ''X-Hub-Signature-256'' = Some (''sha256='' @ sg))" .
  qed
  from first_attempt [of ?req Second es resp]
  have "\<exists>out rest. new_effects s s' = Attempt ?req out # rest" by (simp only: tr)
  with answered(3) have p2: "\<forall>sg. url_Parse d url = None
            \<longrightarrow> getMessageDigestOrSignature d body (WhatsappWebhookSecret c) = Inr sg
            \<longrightarrow> (\<exists>out rest. new_effects s s' = Attempt (signed_request url body sg) out # rest)"
    by (simp add: same)
  from p1 p2 show ?thesis by (rule conjI)
next
  case (exhausted body' sg es)
  from exhausted(1) assms(1) have same: "body' = body" by simp
  let ?req = "signed_request url body sg"
  from exhausted(6) have tr: "new_effects s s' = failed_rounds ?req Second es"
    by (simp add: new_effects_append same)
  have req: "\<exists>n. q = body_read n ?req" if "Attempt q out \<in> set (new_effects s s')" for q out
    using that request_of_failed_rounds [of q out ?req Second es] by (simp add: tr)
  have p1: "\<forall>q out. Attempt q out \<in> set (new_effects s s') \<longrightarrow>
            Method q = ''POST'' \<and> URL q = url \<and> (\<exists>n. Body q = drop n body)
            \<and> Header q ''Content-Type'' = Some ''application/json''
            \<and> (\<exists>sg. getMessageDigestOrSignature d body (WhatsappWebhookSecret c) = Inr sg
                  \<and> Header q ''X-Hub-Signature-256'' = Some (''sha256='' @ sg))"
  proof (intro allI impI)
    fix q out assume "Attempt q out \<in> set (new_effects s s')"
    from req [OF this] obtain n where "q = body_read n ?req" by blast
    from signed_request_fields [OF this exhausted(3) [unfolded same]]
    show "Method q = ''POST'' \<and> URL q = url \<and> (\<exists>n. Body q = drop n body)
        \<and> Header q ''Content-Type'' = Some ''application/json''
        \<and> (\<exists>sg. getMessageDigestOrSignature d body (WhatsappWebhookSecret c) = Inr sg
              \<and> Header q ''X-Hub-Signature-256'' = Some (''sha256='' @ sg))" .
  qed
  from exhausted(5) have "es \<noteq> []" by auto
  from first_failed_attempt [OF this, of ?req Second]
  have "\<exists>out rest. new_effects s s' = Attempt ?req out # rest" by (simp only: tr)
  with exhausted(3) have p2: "\<forall>sg. url_Parse d url = None
            \<longrightarrow> getMessageDigestOrSignature d body (WhatsappWebhookSecret c) = Inr sg
            \<longrightarrow> (\<exists>out rest. new_effects s s' = Attempt (signed_request url body sg) out # rest)"
    by (simp add: same)
  from p1 p2 show ?thesis by (rule conjI)
qed

theorem outbound_request_built_witness:
  "Attempt drained_request (Inl (OtherError ''no response''))
     \<in> set (new_effects (sim_start [])
         (snd (submitWebhook silent_deps sim_config message_payload ''http://a.example/hook''
            (sim_start []))))
   \<and> Method drained_request = ''POST'' \<and> URL drained_request = ''http://a.example/hook''
   \<and> Body drained_request = ''''
   \<and> Header drained_request ''Content-Type'' = Some ''application/json''
   \<and> Header drained_request ''X-Hub-Signature-256'' = Some ''sha256=c0ffee''"
proof -
  let ?run = "submitWebhook silent_deps sim_config message_payload ''http://a.example/hook''
     (sim_start [])"
  have mem: "Attempt drained_request (Inl (OtherError ''no response''))
      \<in> set (new_effects (sim_start []) (snd ?run))"
    unfolding silent_run by (simp add: new_effects_def sim_start_def)
  have run: "?run = (fst ?run, snd ?run)" by simp
  from outbound_request_built [OF sim_built_silent(1) run, THEN conjunct1, rule_format, OF mem]
  have "Method drained_request = ''POST'' \<and> URL drained_request = ''http://a.example/hook''
    \<and> Header drained_request ''Content-Type'' = Some ''application/json''
    \<and> Header drained_request ''X-Hub-Signature-256'' = Some ''sha256=c0ffee''"
    by (simp add: sim_built_silent)
  moreover have "Body drained_request = ''''" by (simp add: drained_request_def)
  ultimately show ?thesis using mem by simp
qed

text \<open>
  The whole trace of a delivery whose attempts all fail: after the fifth failed attempt
  the loop sleeps once more, for 16 seconds, before the error is returned. The five
  attempts are on the one request object, whose body only shrinks.
\<close>

theorem delivery_exhausted_trace:
  assumes "json_Marshal d payload = Inr body"
    and "url_Parse d url = None"
    and "getMessageDigestOrSignature d body (WhatsappWebhookSecret c) = Inr sg"
    and "submitWebhook d c payload url s = (r, s')"
    and "\<forall>x\<in>set (attempts_of (new_effects s s')). isl (snd x)"
  shows "\<exists>e1 e2 e3 e4 e5 n1 n2 n3 n4. n1 \<le> n2 \<and> n2 \<le> n3 \<and> n3 \<le> n4 \<and> new_effects s s' =
       [Attempt (signed_request url body sg) (Inl e1), Sleep (1 * Second),
        Attempt (body_read n1 (signed_request url body sg)) (Inl e2), Sleep (2 * Second),
        Attempt (body_read n2 (signed_request url body sg)) (Inl e3), Sleep (4 * Second),
        Attempt (body_read n3 (signed_request url body sg)) (Inl e4), Sleep (8 * Second),
        Attempt (body_read n4 (signed_request url body sg)) (Inl e5), Sleep (16 * Second)]"
  using assms(4)
proof (cases rule: submitWebhook_cases)
  case (early m)
  with assms(1-3) show ?thesis by simp
next
  case (answered body' sg' es resp)
  then have "new_effects s s' = failed_rounds (signed_request url body' sg') Second es
      @ [Attempt (after_rounds (signed_request url body' sg') es) (Inr resp)]"
    by (simp add: new_effects_append)
  then have "(after_rounds (signed_request url body' sg') es, Inr resp)
      \<in> set (attempts_of (new_effects s s'))"
    by (simp add: attempts_of_append)
  with assms(5) show ?thesis by force
next
  case (exhausted body' sg' es)
  from exhausted(1,3) assms(1,3) have same: "body' = body" "sg' = sg" by simp_all
  let ?req = "signed_request url body sg"
  from five_rounds [OF exhausted(5)] obtain a na b nb c nc d nd e ne
    where es: "es = [(a, na), (b, nb), (c, nc), (d, nd), (e, ne)]"
    by blast
  from exhausted(6) have "new_effects s s' = failed_rounds ?req Second es"
    by (simp add: new_effects_append same)
  then have tr: "new_effects s s' =
     [Attempt ?req (Inl a), Sleep (1 * Second),
      Attempt (body_read na ?req) (Inl b), Sleep (2 * Second),
      Attempt (body_read (na + nb) ?req) (Inl c), Sleep (4 * Second),
      Attempt (body_read (na + nb + nc) ?req) (Inl d), Sleep (8 * Second),
      Attempt (body_read (na + nb + nc + nd) ?req) (Inl e), Sleep (16 * Second)]"
    unfolding es by (simp only: failed_rounds_five)
  have le: "na \<le> na + nb" "na + nb \<le> na + nb + nc" "na + nb + nc \<le> na + nb + nc + nd"
    by simp_all
  from le tr have "na \<le> na + nb \<and> na + nb \<le> na + nb + nc
      \<and> na + nb + nc \<le> na + nb + nc + nd \<and> new_effects s s' =
     [Attempt ?req (Inl a), Sleep (1 * Second),
      Attempt (body_read na ?req) (Inl b), Sleep (2 * Second),
      Attempt (body_read (na + nb) ?req) (Inl c), Sleep (4 * Second),
      Attempt (body_read (na + nb + nc) ?req) (Inl d), Sleep (8 * Second),
      Attempt (body_read (na + nb + nc + nd) ?req) (Inl e), Sleep (16 * Second)]"
    by (intro conjI)
  then show ?thesis by (intro exI)
qed

theorem delivery_exhausted_trace_witness:
  "new_effects (sim_start [])
     (snd (submitWebhook refusing_deps sim_config message_payload ''http://a.example/hook''
        (sim_start [])))
   = [Attempt hook_request (Inl (OtherError ''connection refused'')), Sleep 1000000000,
      Attempt hook_request (Inl (OtherError ''connection refused'')), Sleep 2000000000,
      Attempt hook_request (Inl (OtherError ''connection refused'')), Sleep 4000000000,
      Attempt hook_request (Inl (OtherError ''connection refused'')), Sleep 8000000000,
      Attempt hook_request (Inl (OtherError ''connection refused'')), Sleep 16000000000]"
proof -
  let ?s' = "snd (submitWebhook refusing_deps sim_config message_payload
     ''http://a.example/hook'' (sim_start []))"
  have all: "\<forall>x\<in>set (attempts_of (new_effects (sim_start []) ?s')). isl (snd x)"
    unfolding refused_run by (simp add: new_effects_def sim_start_def)
  have run: "submitWebhook refusing_deps sim_config message_payload ''http://a.example/hook''
      (sim_start []) = (Some (WebhookError
        ''error when submit webhook after 5 attempts: connection refused''), ?s')"
    by (simp add: refused_run)
  from delivery_exhausted_trace [OF sim_built run all]
  have "length (new_effects (sim_start []) ?s') = 10" by (elim exE conjE) simp
  then show ?thesis
    unfolding refused_run by (simp add: new_effects_def sim_start_def)
qed

subsection \<open>The fan-out\<close>

lemma submissions_of_append:
  "submissions_of (xs @ ys) = submissions_of xs @ submissions_of ys"
  by (induction xs rule: submissions_of.induct) simp_all

lemma delivery_effect_failed_rounds:
  "URL req = url \<Longrightarrow> \<forall>x\<in>set (failed_rounds req sd es). delivery_effect url x"
  by (induction req sd es rule: failed_rounds.induct) simp_all

lemma URL_after_rounds: "URL (after_rounds req es) = URL req"
  by (induction req es rule: after_rounds.induct) simp_all

lemma no_submission_in_delivery:
  "\<forall>x\<in>set tr. delivery_effect url x \<Longrightarrow> submissions_of tr = []"
  by (induction tr rule: submissions_of.induct) simp_all

lemma no_extract_in_delivery:
  "delivery_effect url x \<Longrightarrow> \<not> is_Extract x"
  by (cases x) simp_all

lemma submitWebhook_trace:
  assumes "submitWebhook d c p url s = (r, s1)"
  shows "\<exists>tr. trace s1 = trace s @ tr \<and> (\<forall>x\<in>set tr. delivery_effect url x)"
  using assms
proof (cases rule: submitWebhook_cases)
  case (early m)
  then show ?thesis by simp
next
  case (answered body sg es resp)
  let ?req = "signed_request url body sg"
  have u: "URL ?req = url" by (simp add: signed_request_def)
  then have "URL (after_rounds ?req es) = url" by (simp add: URL_after_rounds)
  with delivery_effect_failed_rounds [OF u, of Second es]
  have "\<forall>x\<in>set (failed_rounds ?req Second es
        @ [Attempt (after_rounds ?req es) (Inr resp)]). delivery_effect url x"
    by simp
  with answered(6) show ?thesis by blast
next
  case (exhausted body sg es)
  have "URL (signed_request url body sg) = url" by (simp add: signed_request_def)
  from delivery_effect_failed_rounds [OF this, of Second es] exhausted(6)
  show ?thesis by blast
qed

text \<open>
  The run of the loop over the endpoints, call by call: \<open>ss\<close> are the states in
  which the calls of \<open>submitWebhook\<close> start, \<open>n\<close> is the number of calls that
  returned \<open>nil\<close>.
\<close>

lemma submit_each_run:
  "submit_each d c p urls s = (r, s') \<Longrightarrow>
   \<exists>tr n ss. trace s' = trace s @ tr \<and> n \<le> length urls
     \<and> length ss = Suc n \<and> ss ! 0 = s
     \<and> (\<forall>i<n. \<exists>t. submitWebhook d c p (urls ! i) (ss ! i) = (None, t)
            \<and> ss ! Suc i = t\<lparr>trace := trace t @ [Submitted (urls ! i) p None]\<rparr>)
     \<and> (\<forall>x\<in>set tr. (\<exists>u\<in>set (take (Suc n) urls). delivery_effect u x)
                      \<or> (\<exists>u out. x = Submitted u p out))
     \<and> ((r = None \<and> n = length urls \<and> s' = ss ! n
           \<and> submissions_of tr = map (\<lambda>u. (u, p, None)) urls)
        \<or> (\<exists>e t. r = Some e \<and> n < length urls
             \<and> submitWebhook d c p (urls ! n) (ss ! n) = (Some e, t)
             \<and> s' = t\<lparr>trace := trace t @ [Submitted (urls ! n) p (Some e)]\<rparr>
             \<and> submissions_of tr
                 = map (\<lambda>u. (u, p, None)) (take n urls) @ [(urls ! n, p, Some e)]
             \<and> (\<exists>pre. tr = pre @ [Submitted (urls ! n) p (Some e)])))"
proof (induction urls arbitrary: s r s')
  case Nil
  then show ?case by (intro exI [of _ "[]"] exI [of _ 0] exI [of _ "[s]"]) simp
next
  case (Cons url urls)
  obtain r1 s1 where sw: "submitWebhook d c p url s = (r1, s1)"
    by (cases "submitWebhook d c p url s")
  from submitWebhook_trace [OF sw] obtain tr1 where
    tr1: "trace s1 = trace s @ tr1" and eff1: "\<forall>x\<in>set tr1. delivery_effect url x"
    by blast
  from eff1 have sub1: "submissions_of tr1 = []" by (rule no_submission_in_delivery)
  let ?s2 = "s1\<lparr>trace := trace s1 @ [Submitted url p r1]\<rparr>"
  show ?case
  proof (cases r1)
    case (Some e)
    with Cons.prems sw have r: "r = Some e" and s': "s' = ?s2" by (auto simp: Let_def)
    let ?tr = "tr1 @ [Submitted url p (Some e)]"
    from s' tr1 Some have t: "trace s' = trace s @ ?tr" by simp
    have chain: "\<forall>i<0. \<exists>t. submitWebhook d c p ((url # urls) ! i) ([s] ! i) = (None, t)
            \<and> [s] ! Suc i = t\<lparr>trace := trace t @ [Submitted ((url # urls) ! i) p None]\<rparr>"
      by simp
    have effs: "\<forall>x\<in>set ?tr. (\<exists>u\<in>set (take (Suc 0) (url # urls)). delivery_effect u x)
                      \<or> (\<exists>u out. x = Submitted u p out)"
      using eff1 by auto
    have call: "submitWebhook d c p ((url # urls) ! 0) ([s] ! 0) = (Some e, s1)"
      using sw Some by simp
    have st: "s' = s1\<lparr>trace := trace s1 @ [Submitted ((url # urls) ! 0) p (Some e)]\<rparr>"
      using s' Some by simp
    have subs: "submissions_of ?tr
        = map (\<lambda>u. (u, p, None)) (take 0 (url # urls)) @ [((url # urls) ! 0, p, Some e)]"
      by (simp add: submissions_of_append sub1)
    have lst: "\<exists>pre. ?tr = pre @ [Submitted ((url # urls) ! 0) p (Some e)]" by simp
    have alt: "\<exists>e t. r = Some e \<and> 0 < length (url # urls)
             \<and> submitWebhook d c p ((url # urls) ! 0) ([s] ! 0) = (Some e, t)
             \<and> s' = t\<lparr>trace := trace t @ [Submitted ((url # urls) ! 0) p (Some e)]\<rparr>
             \<and> submissions_of ?tr
                 = map (\<lambda>u. (u, p, None)) (take 0 (url # urls)) @ [((url # urls) ! 0, p, Some e)]
             \<and> (\<exists>pre. ?tr = pre @ [Submitted ((url # urls) ! 0) p (Some e)])"
      using r call st subs lst by (intro exI [of _ e] exI [of _ s1]) simp
    from t chain effs alt show ?thesis
      by (intro exI [of _ ?tr] exI [of _ 0] exI [of _ "[s]"]) simp
  next
    case None
    with Cons.prems sw have rec: "submit_each d c p urls ?s2 = (r, s')" by (simp add: Let_def)
    from Cons.IH [OF rec] obtain tr2 n ss2 where
      t2: "trace s' = trace ?s2 @ tr2" and n: "n \<le> length urls"
      and len2: "length ss2 = Suc n" and hd2: "ss2 ! 0 = ?s2"
      and chain2: "\<forall>i<n. \<exists>t. submitWebhook d c p (urls ! i) (ss2 ! i) = (None, t)
            \<and> ss2 ! Suc i = t\<lparr>trace := trace t @ [Submitted (urls ! i) p None]\<rparr>"
      and eff2: "\<forall>x\<in>set tr2. (\<exists>u\<in>set (take (Suc n) urls). delivery_effect u x)
                      \<or> (\<exists>u out. x = Submitted u p out)"
      and alt: "(r = None \<and> n = length urls \<and> s' = ss2 ! n
           \<and> submissions_of tr2 = map (\<lambda>u. (u, p, None)) urls)
        \<or> (\<exists>e t. r = Some e \<and> n < length urls
             \<and> submitWebhook d c p (urls ! n) (ss2 ! n) = (Some e, t)
             \<and> s' = t\<lparr>trace := trace t @ [Submitted (urls ! n) p (Some e)]\<rparr>
             \<and> submissions_of tr2
                 = map (\<lambda>u. (u, p, None)) (take n urls) @ [(urls ! n, p, Some e)]
             \<and> (\<exists>pre. tr2 = pre @ [Submitted (urls ! n) p (Some e)]))"
      by blast
    let ?tr = "tr1 @ Submitted url p None # tr2"
    let ?ss = "s # ss2"
    from t2 tr1 None have t: "trace s' = trace s @ ?tr" by simp
    have len: "length ?ss = Suc (Suc n)" using len2 by simp
    have chain: "\<forall>i<Suc n. \<exists>t. submitWebhook d c p ((url # urls) ! i) (?ss ! i) = (None, t)
            \<and> ?ss ! Suc i = t\<lparr>trace := trace t @ [Submitted ((url # urls) ! i) p None]\<rparr>"
    proof (intro allI impI)
      fix i assume i: "i < Suc n"
      show "\<exists>t. submitWebhook d c p ((url # urls) ! i) (?ss ! i) = (None, t)
            \<and> ?ss ! Suc i = t\<lparr>trace := trace t @ [Submitted ((url # urls) ! i) p None]\<rparr>"
      proof (cases i)
        case 0
        with sw None hd2 show ?thesis by simp
      next
        case (Suc j)
        with i have "j < n" by simp
        with chain2 have "\<exists>t. submitWebhook d c p (urls ! j) (ss2 ! j) = (None, t)
            \<and> ss2 ! Suc j = t\<lparr>trace := trace t @ [Submitted (urls ! j) p None]\<rparr>" by blast
        with Suc show ?thesis by simp
      qed
    qed
    have effs: "\<forall>x\<in>set ?tr. (\<exists>u\<in>set (take (Suc (Suc n)) (url # urls)). delivery_effect u x)
                      \<or> (\<exists>u out. x = Submitted u p out)"
      using eff1 eff2 by auto
    have subs: "submissions_of ?tr = (url, p, None) # submissions_of tr2"
      by (simp add: submissions_of_append sub1)
    from alt have alt': "(r = None \<and> Suc n = length (url # urls) \<and> s' = ?ss ! Suc n
           \<and> submissions_of ?tr = map (\<lambda>u. (u, p, None)) (url # urls))
        \<or> (\<exists>e t. r = Some e \<and> Suc n < length (url # urls)
             \<and> submitWebhook d c p ((url # urls) ! Suc n) (?ss ! Suc n) = (Some e, t)
             \<and> s' = t\<lparr>trace := trace t @ [Submitted ((url # urls) ! Suc n) p (Some e)]\<rparr>
             \<and> submissions_of ?tr
                 = map (\<lambda>u. (u, p, None)) (take (Suc n) (url # urls))
                   @ [((url # urls) ! Suc n, p, Some e)]
             \<and> (\<exists>pre. ?tr = pre @ [Submitted ((url # urls) ! Suc n) p (Some e)]))"
    proof
      assume "r = None \<and> n = length urls \<and> s' = ss2 ! n
           \<and> submissions_of tr2 = map (\<lambda>u. (u, p, None)) urls"
      then show ?thesis by (simp add: subs)
    next
      assume "\<exists>e t. r = Some e \<and> n < length urls
             \<and> submitWebhook d c p (urls ! n) (ss2 ! n) = (Some e, t)
             \<and> s' = t\<lparr>trace := trace t @ [Submitted (urls ! n) p (Some e)]\<rparr>
             \<and> submissions_of tr2
                 = map (\<lambda>u. (u, p, None)) (take n urls) @ [(urls ! n, p, Some e)]
             \<and> (\<exists>pre. tr2 = pre @ [Submitted (urls ! n) p (Some e)])"
      then obtain e t pre where e: "r = Some e" "n < length urls"
        "submitWebhook d c p (urls ! n) (ss2 ! n) = (Some e, t)"
        "s' = t\<lparr>trace := trace t @ [Submitted (urls ! n) p (Some e)]\<rparr>"
        "submissions_of tr2 = map (\<lambda>u. (u, p, None)) (take n urls) @ [(urls ! n, p, Some e)]"
        "tr2 = pre @ [Submitted (urls ! n) p (Some e)]" by blast
      from e(6) have "?tr = (tr1 @ Submitted url p None # pre)
          @ [Submitted ((url # urls) ! Suc n) p (Some e)]" by simp
      then have pre: "\<exists>pre. ?tr = pre @ [Submitted ((url # urls) ! Suc n) p (Some e)]" by blast
      have "\<exists>e t. r = Some e \<and> Suc n < length (url # urls)
             \<and> submitWebhook d c p ((url # urls) ! Suc n) (?ss ! Suc n) = (Some e, t)
             \<and> s' = t\<lparr>trace := trace t @ [Submitted ((url # urls) ! Suc n) p (Some e)]\<rparr>
             \<and> submissions_of ?tr
                 = map (\<lambda>u. (u, p, None)) (take (Suc n) (url # urls))
                   @ [((url # urls) ! Suc n, p, Some e)]
             \<and> (\<exists>pre. ?tr = pre @ [Submitted ((url # urls) ! Suc n) p (Some e)])"
        using e(1-5) pre by (intro exI [of _ e] exI [of _ t]) (simp add: subs)
      then show ?thesis by (rule disjI2)
    qed
    from n have n': "Suc n \<le> length (url # urls)" by simp
    have hd: "?ss ! 0 = s" by simp
    from t n' len hd chain effs alt' show ?thesis
      by (intro exI [of _ ?tr] exI [of _ "Suc n"] exI [of _ ?ss] conjI)
  qed
qed

text \<open>Two runs of calls from the same state go through the same states.\<close>

lemma calls_agree:
  assumes "ss ! 0 = ss' ! 0"
    and "\<forall>i<n. \<exists>t. submitWebhook d c p (urls ! i) (ss ! i) = (None, t)
            \<and> ss ! Suc i = t\<lparr>trace := trace t @ [Submitted (urls ! i) p None]\<rparr>"
    and "\<forall>i<m. \<exists>t. submitWebhook d c p (urls ! i) (ss' ! i) = (None, t)
            \<and> ss' ! Suc i = t\<lparr>trace := trace t @ [Submitted (urls ! i) p None]\<rparr>"
  shows "i \<le> n \<Longrightarrow> i \<le> m \<Longrightarrow> ss ! i = ss' ! i"
proof (induction i)
  case 0
  from assms(1) show ?case .
next
  case (Suc i)
  then have same: "ss ! i = ss' ! i" and "i < n" and "i < m" by simp_all
  with assms(2,3) obtain t t' where
    t: "submitWebhook d c p (urls ! i) (ss ! i) = (None, t)"
       "ss ! Suc i = t\<lparr>trace := trace t @ [Submitted (urls ! i) p None]\<rparr>"
    and t': "submitWebhook d c p (urls ! i) (ss' ! i) = (None, t')"
       "ss' ! Suc i = t'\<lparr>trace := trace t' @ [Submitted (urls ! i) p None]\<rparr>"
    by blast
  from t(1) t'(1) same have "t = t'" by simp
  with t(2) t'(2) show ?case by simp
qed

lemma build_effects:
  assumes "build_run_of evt s (b, s0)"
  shows "\<exists>tr. trace s0 = trace s @ tr \<and> (\<forall>x\<in>set tr. is_Extract x)"
proof -
  have ok: "\<forall>x\<in>set oks. is_Extract x" if "list_all (ok_extract_of evt) oks" for oks
    using that
  proof (induction oks)
    case Nil
    then show ?case by simp
  next
    case (Cons x xs)
    then show ?case by (cases x) simp_all
  qed
  show ?thesis
  proof (cases b)
    case (Inr p)
    with assms ok show ?thesis by (auto simp: build_run_of_def extends_ok_of_def)
  next
    case (Inl err)
    with assms obtain oks k m e where "list_all (ok_extract_of evt) oks"
      "trace s0 = trace s @ oks @ [Extract k m (Inl e)]"
      by (auto simp: build_run_of_def)
    with ok [of oks] show ?thesis by (intro exI [of _ "oks @ [Extract k m (Inl e)]"]) simp
  qed
qed

lemma dispatch_effects:
  assumes "dispatch d c evt s = (b, s0)"
  shows "\<exists>tr. trace s0 = trace s @ tr \<and> (\<forall>x\<in>set tr. is_Extract x)"
proof (cases evt)
  case (Message_ptr e)
  with assms have "createPayload d c e s = (b, s0)" by (simp add: dispatch_def)
  with createPayload_run [of e s d c] have "build_run_of e s (b, s0)" by simp
  then show ?thesis by (rule build_effects)
next
  case (Receipt_ptr e)
  with assms show ?thesis by (simp add: dispatch_def)
next
  case (Presence_ptr e)
  with assms show ?thesis by (simp add: dispatch_def createPresencePayload_def Let_def)
next
  case (Other_type T)
  with assms show ?thesis by (auto simp: dispatch_def)
qed

lemma not_all_delivered:
  "map (\<lambda>u. (u, p, None)) xs @ [(v, p, Some e)] \<noteq> map (\<lambda>u. (u, p, None)) ys"
proof
  assume "map (\<lambda>u. (u, p, None)) xs @ [(v, p, Some e)] = map (\<lambda>u. (u, p, None)) ys"
  then have "(v, p, Some e) \<in> set (map (\<lambda>u. (u, p, None)) ys)"
    by (metis in_set_conv_decomp)
  then show False by auto
qed

text \<open>
  C3. \<open>forwardToWebhook\<close> runs the payload build once; if the build fails it
  returns that error and delivers nothing. Otherwise it calls \<open>submitWebhook\<close>
  with the payload that the build returned for the endpoints in the order of the
  configured list, the first call in the state that the build left and each further
  call in the state that the call before left: \<open>n\<close> calls return \<open>nil\<close>, and
  either these are all the endpoints and the result is \<open>nil\<close>, or the call for the
  next endpoint returns an error, that error is the result, the call is the last
  effect and no request goes to a later endpoint. No media is extracted after the
  build. The result is success exactly when the build returned a payload and the call
  for every endpoint of the list returned \<open>nil\<close>.
\<close>

theorem fan_out_in_order:
  assumes "forwardToWebhook d c evt s = (r, s')" and "dispatch d c evt s = (b, s0)"
  shows "(\<forall>err. b = Inl err \<longrightarrow> r = Some err \<and> s' = s0)
    \<and> (\<forall>p. b = Inr p \<longrightarrow>
         (\<exists>n\<le>length (WhatsappWebhook c). \<exists>ss. length ss = Suc n \<and> ss ! 0 = s0
          \<and> (\<forall>i<n. \<exists>t. submitWebhook d c p (WhatsappWebhook c ! i) (ss ! i) = (None, t)
                \<and> ss ! Suc i = t\<lparr>trace := trace t @ [Submitted (WhatsappWebhook c ! i) p None]\<rparr>)
          \<and> (\<forall>q out. Attempt q out \<in> set (new_effects s0 s')
                \<longrightarrow> URL q \<in> set (take (Suc n) (WhatsappWebhook c)))
          \<and> ((r = None \<and> n = length (WhatsappWebhook c) \<and> s' = ss ! n
                \<and> submissions_of (new_effects s0 s')
                    = map (\<lambda>u. (u, p, None)) (WhatsappWebhook c))
             \<or> (\<exists>e t. r = Some e \<and> n < length (WhatsappWebhook c)
                   \<and> submitWebhook d c p (WhatsappWebhook c ! n) (ss ! n) = (Some e, t)
                   \<and> s' = t\<lparr>trace := trace t @ [Submitted (WhatsappWebhook c ! n) p (Some e)]\<rparr>
                   \<and> submissions_of (new_effects s0 s')
                       = map (\<lambda>u. (u, p, None)) (take n (WhatsappWebhook c))
                         @ [(WhatsappWebhook c ! n, p, Some e)]
                   \<and> last (new_effects s0 s') = Submitted (WhatsappWebhook c ! n) p (Some e))))
         \<and> (\<forall>k m out. Extract k m out \<notin> set (new_effects s0 s')))
    \<and> (r = None) = (\<exists>p. b = Inr p
          \<and> submissions_of (new_effects s0 s') = map (\<lambda>u. (u, p, None)) (WhatsappWebhook c))
    \<and> (r = None) = (\<exists>p ss. b = Inr p \<and> length ss = Suc (length (WhatsappWebhook c))
          \<and> ss ! 0 = s0
          \<and> (\<forall>i<length (WhatsappWebhook c).
                \<exists>t. submitWebhook d c p (WhatsappWebhook c ! i) (ss ! i) = (None, t)
                \<and> ss ! Suc i = t\<lparr>trace := trace t @ [Submitted (WhatsappWebhook c ! i) p None]\<rparr>))"
proof (cases b)
  case (Inl err)
  with assms have "r = Some err" and "s' = s0" by (auto simp: forwardToWebhook_def)
  with Inl show ?thesis by simp
next
  case (Inr p)
  let ?urls = "WhatsappWebhook c"
  from assms Inr have run: "submit_each d c p ?urls s0 = (r, s')"
    by (simp add: forwardToWebhook_def)
  from submit_each_run [OF run] obtain tr n ss where
    t: "trace s' = trace s0 @ tr" and n: "n \<le> length ?urls"
    and len: "length ss = Suc n" and hd: "ss ! 0 = s0"
    and chain: "\<forall>i<n. \<exists>t. submitWebhook d c p (?urls ! i) (ss ! i) = (None, t)
            \<and> ss ! Suc i = t\<lparr>trace := trace t @ [Submitted (?urls ! i) p None]\<rparr>"
    and eff: "\<forall>x\<in>set tr. (\<exists>u\<in>set (take (Suc n) ?urls). delivery_effect u x)
                      \<or> (\<exists>u out. x = Submitted u p out)"
    and alt: "(r = None \<and> n = length ?urls \<and> s' = ss ! n
           \<and> submissions_of tr = map (\<lambda>u. (u, p, None)) ?urls)
        \<or> (\<exists>e t. r = Some e \<and> n < length ?urls
             \<and> submitWebhook d c p (?urls ! n) (ss ! n) = (Some e, t)
             \<and> s' = t\<lparr>trace := trace t @ [Submitted (?urls ! n) p (Some e)]\<rparr>
             \<and> submissions_of tr
                 = map (\<lambda>u. (u, p, None)) (take n ?urls) @ [(?urls ! n, p, Some e)]
             \<and> (\<exists>pre. tr = pre @ [Submitted (?urls ! n) p (Some e)]))"
    by blast
  from t have new: "new_effects s0 s' = tr" by (rule new_effects_append)
  have urls: "\<forall>q out. Attempt q out \<in> set tr \<longrightarrow> URL q \<in> set (take (Suc n) ?urls)"
  proof (intro allI impI)
    fix q out assume "Attempt q out \<in> set tr"
    with eff obtain u where "u \<in> set (take (Suc n) ?urls)" "delivery_effect u (Attempt q out)"
      by blast
    then show "URL q \<in> set (take (Suc n) ?urls)" by simp
  qed
  have noex: "Extract k m out \<notin> set tr" for k m out
  proof
    assume "Extract k m out \<in> set tr"
    with eff have "(\<exists>u\<in>set (take (Suc n) ?urls). delivery_effect u (Extract k m out))
        \<or> (\<exists>u out'. Extract k m out = Submitted u p out')" by blast
    then show False by simp
  qed
  from alt have alt': "(r = None \<and> n = length ?urls \<and> s' = ss ! n
                \<and> submissions_of tr = map (\<lambda>u. (u, p, None)) ?urls)
             \<or> (\<exists>e t. r = Some e \<and> n < length ?urls
                   \<and> submitWebhook d c p (?urls ! n) (ss ! n) = (Some e, t)
                   \<and> s' = t\<lparr>trace := trace t @ [Submitted (?urls ! n) p (Some e)]\<rparr>
                   \<and> submissions_of tr
                       = map (\<lambda>u. (u, p, None)) (take n ?urls) @ [(?urls ! n, p, Some e)]
                   \<and> last tr = Submitted (?urls ! n) p (Some e))"
  proof
    assume "r = None \<and> n = length ?urls \<and> s' = ss ! n
           \<and> submissions_of tr = map (\<lambda>u. (u, p, None)) ?urls"
    then show ?thesis by (rule disjI1)
  next
    assume "\<exists>e t. r = Some e \<and> n < length ?urls
             \<and> submitWebhook d c p (?urls ! n) (ss ! n) = (Some e, t)
             \<and> s' = t\<lparr>trace := trace t @ [Submitted (?urls ! n) p (Some e)]\<rparr>
             \<and> submissions_of tr
                 = map (\<lambda>u. (u, p, None)) (take n ?urls) @ [(?urls ! n, p, Some e)]
             \<and> (\<exists>pre. tr = pre @ [Submitted (?urls ! n) p (Some e)])"
    then obtain e t pre where e: "r = Some e" "n < length ?urls"
        "submitWebhook d c p (?urls ! n) (ss ! n) = (Some e, t)"
        "s' = t\<lparr>trace := trace t @ [Submitted (?urls ! n) p (Some e)]\<rparr>"
        "submissions_of tr = map (\<lambda>u. (u, p, None)) (take n ?urls) @ [(?urls ! n, p, Some e)]"
        "tr = pre @ [Submitted (?urls ! n) p (Some e)]" by blast
    from e(6) have "last tr = Submitted (?urls ! n) p (Some e)" by simp
    with e(1-5) have "\<exists>e t. r = Some e \<and> n < length ?urls
                   \<and> submitWebhook d c p (?urls ! n) (ss ! n) = (Some e, t)
                   \<and> s' = t\<lparr>trace := trace t @ [Submitted (?urls ! n) p (Some e)]\<rparr>
                   \<and> submissions_of tr
                       = map (\<lambda>u. (u, p, None)) (take n ?urls) @ [(?urls ! n, p, Some e)]
                   \<and> last tr = Submitted (?urls ! n) p (Some e)"
      by (intro exI [of _ e] exI [of _ t]) simp
    then show ?thesis by (rule disjI2)
  qed
  have iff: "(r = None) = (submissions_of tr = map (\<lambda>u. (u, p, None)) ?urls)"
  proof (cases r)
    case None
    with alt' show ?thesis by auto
  next
    case (Some e)
    with alt' have "submissions_of tr
        = map (\<lambda>u. (u, p, None)) (take n ?urls) @ [(?urls ! n, p, Some e)]" by auto
    with Some not_all_delivered [of p "take n ?urls" "?urls ! n" e ?urls]
    show ?thesis by simp
  qed
  have iff2: "(r = None) = (\<exists>ss. length ss = Suc (length ?urls) \<and> ss ! 0 = s0
          \<and> (\<forall>i<length ?urls.
                \<exists>t. submitWebhook d c p (?urls ! i) (ss ! i) = (None, t)
                \<and> ss ! Suc i = t\<lparr>trace := trace t @ [Submitted (?urls ! i) p None]\<rparr>))"
  proof
    assume "r = None"
    with alt' have "n = length ?urls" by auto
    with len hd chain show "\<exists>ss. length ss = Suc (length ?urls) \<and> ss ! 0 = s0
          \<and> (\<forall>i<length ?urls.
                \<exists>t. submitWebhook d c p (?urls ! i) (ss ! i) = (None, t)
                \<and> ss ! Suc i = t\<lparr>trace := trace t @ [Submitted (?urls ! i) p None]\<rparr>)"
      by (intro exI [of _ ss]) simp
  next
    assume "\<exists>ss. length ss = Suc (length ?urls) \<and> ss ! 0 = s0
          \<and> (\<forall>i<length ?urls.
                \<exists>t. submitWebhook d c p (?urls ! i) (ss ! i) = (None, t)
                \<and> ss ! Suc i = t\<lparr>trace := trace t @ [Submitted (?urls ! i) p None]\<rparr>)"
    then obtain ss' where hd': "ss' ! 0 = s0"
      and all: "\<forall>i<length ?urls.
                \<exists>t. submitWebhook d c p (?urls ! i) (ss' ! i) = (None, t)
                \<and> ss' ! Suc i = t\<lparr>trace := trace t @ [Submitted (?urls ! i) p None]\<rparr>"
      by blast
    show "r = None"
    proof (rule ccontr)
      assume "r \<noteq> None"
      with alt' obtain e t where e: "n < length ?urls"
        "submitWebhook d c p (?urls ! n) (ss ! n) = (Some e, t)" by auto
      from hd hd' have "ss ! 0 = ss' ! 0" by simp
      from calls_agree [OF this chain all, of n] e(1) have "ss ! n = ss' ! n" by simp
      moreover from all e(1) obtain t' where
        "submitWebhook d c p (?urls ! n) (ss' ! n) = (None, t')" by blast
      ultimately show False using e(2) by simp
    qed
  qed
  have p2: "\<exists>n\<le>length ?urls. \<exists>ss. length ss = Suc n \<and> ss ! 0 = s0
          \<and> (\<forall>i<n. \<exists>t. submitWebhook d c p (?urls ! i) (ss ! i) = (None, t)
                \<and> ss ! Suc i = t\<lparr>trace := trace t @ [Submitted (?urls ! i) p None]\<rparr>)
          \<and> (\<forall>q out. Attempt q out \<in> set tr \<longrightarrow> URL q \<in> set (take (Suc n) ?urls))
          \<and> ((r = None \<and> n = length ?urls \<and> s' = ss ! n
                \<and> submissions_of tr = map (\<lambda>u. (u, p, None)) ?urls)
             \<or> (\<exists>e t. r = Some e \<and> n < length ?urls
                   \<and> submitWebhook d c p (?urls ! n) (ss ! n) = (Some e, t)
                   \<and> s' = t\<lparr>trace := trace t @ [Submitted (?urls ! n) p (Some e)]\<rparr>
                   \<and> submissions_of tr
                       = map (\<lambda>u. (u, p, None)) (take n ?urls) @ [(?urls ! n, p, Some e)]
                   \<and> last tr = Submitted (?urls ! n) p (Some e)))"
    using n len hd chain urls alt' by (intro exI [of _ n] exI [of _ ss] conjI)
  have p3: "\<forall>k m out. Extract k m out \<notin> set tr" using noex by blast
  from p2 p3 iff iff2 Inr show ?thesis unfolding new by simp
qed

lemma hello_dispatch:
  "dispatch sim_deps sim_config (Message_ptr hello) s = (Inr hello_payload, s)"
  by (simp add: dispatch_def createPayload_def hello_def sim_deps_def noon_def Let_def
      proto_field_def getters hello_payload_def)

lemma hello_built_for:
  "json_Marshal sim_deps hello_payload = Inr ''event_type=message timestamp=2024-01-01T12:00:00Z''"
  "url \<noteq> ''://example.com'' \<Longrightarrow> url_Parse sim_deps url = None"
  "getMessageDigestOrSignature sim_deps ''event_type=message timestamp=2024-01-01T12:00:00Z''
     (WhatsappWebhookSecret sim_config) = Inr ''c0ffee''"
  by (simp_all add: sim_deps_def sim_config_def hello_payload_def)

lemma hello_submit:
  "url \<noteq> ''://example.com'' \<Longrightarrow>
   submitWebhook sim_deps sim_config hello_payload url s
     = retry sim_deps (request_to url) 5 0 Second None s"
  unfolding request_to_def
  by (rule submitWebhook_built [OF hello_built_for])

lemma retry_answered_at_once:
  "retry sim_deps req 5 0 Second None \<lparr>world = \<lparr>responses = [Inr resp], clock = k\<rparr>, trace = tr\<rparr>
     = (None, \<lparr>world = \<lparr>responses = [], clock = k\<rparr>, trace = tr @ [Attempt req (Inr resp)]\<rparr>)"
  by (simp add: retry.simps do_request_def sim_deps_def)

lemma retry_refused:
  "retry sim_deps req 5 0 Second None \<lparr>world = \<lparr>responses = [], clock = k\<rparr>, trace = tr\<rparr>
     = (Some refused, \<lparr>world = \<lparr>responses = [], clock = k\<rparr>,
         trace = tr @
           [Attempt req (Inl (OtherError ''connection refused'')), Sleep 1000000000,
            Attempt req (Inl (OtherError ''connection refused'')), Sleep 2000000000,
            Attempt req (Inl (OtherError ''connection refused'')), Sleep 4000000000,
            Attempt req (Inl (OtherError ''connection refused'')), Sleep 8000000000,
            Attempt req (Inl (OtherError ''connection refused'')), Sleep 16000000000]\<rparr>)"
  by (simp add: retry.simps do_request_def sleep_def sim_deps_def Second_def int64_def
      Sprintf_d_def Sprintf_v_def digits.simps refused_def)

lemma sim_hooks: "WhatsappWebhook sim_config = [''http://a.example/hook'', ''http://b.example/hook'']"
  by (simp add: sim_config_def)

lemma end_to_end_run:
  "forwardToWebhook sim_deps sim_config (Message_ptr hello) (sim_start [Inr \<lparr>StatusCode = 200\<rparr>])
     = (Some refused, \<lparr>world = \<lparr>responses = [], clock = noon\<rparr>, trace = end_to_end\<rparr>)"
  unfolding forwardToWebhook_def hello_dispatch
  by (simp add: sim_hooks hello_submit sim_start_def retry_answered_at_once retry_refused
      Let_def end_to_end_def)

theorem fan_out_in_order_witness:
  "fst (forwardToWebhook sim_deps sim_config (Message_ptr hello)
         (sim_start [Inr \<lparr>StatusCode = 200\<rparr>])) = Some refused
   \<and> submissions_of (new_effects (sim_start [Inr \<lparr>StatusCode = 200\<rparr>])
        (snd (forwardToWebhook sim_deps sim_config (Message_ptr hello)
           (sim_start [Inr \<lparr>StatusCode = 200\<rparr>]))))
       = [(''http://a.example/hook'', hello_payload, None),
          (''http://b.example/hook'', hello_payload, Some refused)]
   \<and> submissions_of (new_effects (sim_start [Inr \<lparr>StatusCode = 200\<rparr>])
        (snd (forwardToWebhook sim_deps sim_config (Message_ptr hello)
           (sim_start [Inr \<lparr>StatusCode = 200\<rparr>]))))
       \<noteq> map (\<lambda>u. (u, hello_payload, None)) (WhatsappWebhook sim_config)"
proof -
  let ?s = "sim_start [Inr \<lparr>StatusCode = 200\<rparr>]"
  let ?run = "forwardToWebhook sim_deps sim_config (Message_ptr hello) ?s"
  have r: "fst ?run = Some refused" by (simp add: end_to_end_run)
  have subs: "submissions_of (new_effects ?s (snd ?run))
       = [(''http://a.example/hook'', hello_payload, None),
          (''http://b.example/hook'', hello_payload, Some refused)]"
    unfolding end_to_end_run by (simp add: new_effects_def sim_start_def end_to_end_def)
  have run: "?run = (fst ?run, snd ?run)" by simp
  from fan_out_in_order [OF run hello_dispatch, THEN conjunct2, THEN conjunct2, THEN conjunct1] r
  have "submissions_of (new_effects ?s (snd ?run))
       \<noteq> map (\<lambda>u. (u, hello_payload, None)) (WhatsappWebhook sim_config)"
    by simp
  with r subs show ?thesis by blast
qed

text \<open>
  C10, as amended. With an empty list of endpoints \<open>forwardToWebhook\<close> runs the
  payload build and nothing else: no request, no sleep, no call of
  \<open>submitWebhook\<close>. It returns success when the build returns a payload and the
  error of the build otherwise.
\<close>

theorem no_endpoints:
  assumes "WhatsappWebhook c = []" and "dispatch d c evt s = (b, s0)"
  shows "forwardToWebhook d c evt s = (case b of Inl err \<Rightarrow> Some err | Inr p \<Rightarrow> None, s0)
    \<and> attempts_of (new_effects s s0) = []
    \<and> submissions_of (new_effects s s0) = []
    \<and> sleeps_of (new_effects s s0) = []"
proof -
  from dispatch_effects [OF assms(2)] obtain tr where
    t: "trace s0 = trace s @ tr" and ex: "\<forall>x\<in>set tr. is_Extract x" by blast
  from t have new: "new_effects s s0 = tr" by (rule new_effects_append)
  have quiet: "attempts_of tr = [] \<and> submissions_of tr = [] \<and> sleeps_of tr = []"
    using ex
  proof (induction tr)
    case Nil
    then show ?case by simp
  next
    case (Cons x xs)
    then show ?case by (cases x) simp_all
  qed
  have "forwardToWebhook d c evt s = (case b of Inl err \<Rightarrow> Some err | Inr p \<Rightarrow> None, s0)"
    using assms by (cases b) (simp_all add: forwardToWebhook_def)
  with quiet show ?thesis by (simp add: new)
qed

lemma hello_built:
  "dispatch sim_deps no_hooks (Message_ptr hello) (sim_start [])
     = (Inr [''event_type'' \<mapsto> VString ''message'', ''from'' \<mapsto> VString ''123@s.whatsapp.net'',
           ''message'' \<mapsto> VMessage \<lparr>msg_ID = '''', Text = ''hello''\<rparr>,
           ''pushname'' \<mapsto> VString ''Ann'', ''timestamp'' \<mapsto> VString ''2024-01-01T12:00:00Z''],
         sim_start [])"
  by (simp add: dispatch_def createPayload_def hello_def sim_deps_def noon_def Let_def
      proto_field_def getters)

theorem no_endpoints_witness:
  "forwardToWebhook sim_deps no_hooks (Message_ptr hello) (sim_start []) = (None, sim_start [])"
  using no_endpoints [OF _ hello_built] by (simp add: no_hooks_def)

text \<open>
  C10 as stated, for every supported event, fails on a message whose image cannot be
  extracted: with no endpoint configured the build still runs, fails, and
  \<open>forwardToWebhook\<close> returns its error.
\<close>

theorem no_endpoints_counterexample:
  "WhatsappWebhook no_hooks = []
   \<and> forwardToWebhook sim_deps no_hooks (Message_ptr photo) (sim_start [])
      = (Some (WebhookError ''Failed to download image: download failed''),
         \<lparr>world = \<lparr>responses = [], clock = noon\<rparr>,
          trace = [Extract KImage ''jpeg'' (Inl (OtherError ''download failed''))]\<rparr>)"
  by (simp add: forwardToWebhook_def dispatch_def createPayload_def Let_def photo_def hello_def
      no_attachments_def getters proto_field_def media_field_def extract_media_def sim_deps_def
      sim_config_def no_hooks_def sim_start_def noon_def)

end
